theory Spec2Isabelle
  imports Main "HOL-Library.Multiset" "HOL-Library.List_Lexorder" "HOL-Library.Char_ord"
begin

section \<open>Strings\<close>

text \<open>
  The scripts of the site (\<^verbatim>\<open>assets/gallery.js\<close>, \<^verbatim>\<open>assets/lightbox.js\<close>) work on
  JavaScript strings. A string is modelled as \<^typ>\<open>string\<close>, the list of the bytes of its
  UTF-8 encoding: the markup the scripts write holds Chinese text, given here by its bytes.
  \<^verbatim>\<open>null\<close> and \<^verbatim>\<open>undefined\<close> are \<open>None\<close> of an option type.
\<close>

definition startsWith :: "string \<Rightarrow> string \<Rightarrow> bool" where
  "startsWith u p = (take (length p) u = p)"

definition endsWith :: "string \<Rightarrow> string \<Rightarrow> bool" where
  "endsWith u s = (length s \<le> length u \<and> drop (length u - length s) u = s)"

text \<open>
  \<^verbatim>\<open>toLowerCase\<close> on the letters A to Z; every other byte is kept. The browser also lowers
  the capital letters outside ASCII, which this model leaves as they are: the class that
  \<^verbatim>\<open>statusClass\<close> gives a status with such a letter differs there. No letter outside ASCII
  is lowered to a letter of a tab name, so the comparison with the tab names is the browser's.
\<close>

definition lower_char :: "char \<Rightarrow> char" where
  "lower_char c =
     (let n = (of_char c :: nat) in if 65 \<le> n \<and> n \<le> 90 then char_of (n + 32) else c)"

definition toLowerCase :: "string \<Rightarrow> string" where
  "toLowerCase s = map lower_char s"

text \<open>
  The white space and line terminators of ECMAScript, which \<^verbatim>\<open>trim\<close> strips and the
  pattern \<^verbatim>\<open>\s\<close> matches, as UTF-8 sequences: U+0009 to U+000D, U+0020, U+00A0, U+1680,
  U+2000 to U+200A, U+2028, U+2029, U+202F, U+205F, U+3000 and U+FEFF.
\<close>

definition white_space :: "string list" where
  "white_space =
     [[CHR 0x09], [CHR 0x0A], [CHR 0x0B], [CHR 0x0C], [CHR 0x0D], [CHR 0x20],
      [CHR 0xC2, CHR 0xA0],
      [CHR 0xE1, CHR 0x9A, CHR 0x80],
      [CHR 0xE2, CHR 0x80, CHR 0x80], [CHR 0xE2, CHR 0x80, CHR 0x81],
      [CHR 0xE2, CHR 0x80, CHR 0x82], [CHR 0xE2, CHR 0x80, CHR 0x83],
      [CHR 0xE2, CHR 0x80, CHR 0x84], [CHR 0xE2, CHR 0x80, CHR 0x85],
      [CHR 0xE2, CHR 0x80, CHR 0x86], [CHR 0xE2, CHR 0x80, CHR 0x87],
      [CHR 0xE2, CHR 0x80, CHR 0x88], [CHR 0xE2, CHR 0x80, CHR 0x89],
      [CHR 0xE2, CHR 0x80, CHR 0x8A],
      [CHR 0xE2, CHR 0x80, CHR 0xA8], [CHR 0xE2, CHR 0x80, CHR 0xA9],
      [CHR 0xE2, CHR 0x80, CHR 0xAF],
      [CHR 0xE2, CHR 0x81, CHR 0x9F],
      [CHR 0xE3, CHR 0x80, CHR 0x80],
      [CHR 0xEF, CHR 0xBB, CHR 0xBF]]"

text \<open>The length of the white-space character a string starts with, 0 when it starts with none.\<close>

definition ws_len :: "string \<Rightarrow> nat" where
  "ws_len s = (case filter (startsWith s) white_space of [] \<Rightarrow> 0 | w # _ \<Rightarrow> length w)"

lemma ws_len_le: "ws_len s \<le> length s"
proof (cases "filter (startsWith s) white_space")
  case Nil
  then show ?thesis by (simp add: ws_len_def)
next
  case (Cons w ws)
  then have "w \<in> set (filter (startsWith s) white_space)" by simp
  then have "take (length w) s = w" by (simp add: startsWith_def)
  then have "length (take (length w) s) = length w" by simp
  then have "length w \<le> length s" by simp
  with Cons show ?thesis by (simp add: ws_len_def)
qed

function trimStart :: "string \<Rightarrow> string" where
  "trimStart s = (if ws_len s = 0 then s else trimStart (drop (ws_len s) s))"
  by pat_completeness auto
termination
proof (relation "measure length")
  show "wf (measure length)" by simp
next
  fix s :: string
  assume "ws_len s \<noteq> 0"
  with ws_len_le [of s] show "(drop (ws_len s) s, s) \<in> measure length" by simp
qed

declare trimStart.simps [simp del]

text \<open>
  The end of the string is trimmed on the reversed string, against the reversed sequences.
\<close>

definition ws_len_end :: "string \<Rightarrow> nat" where
  "ws_len_end s = (case filter (startsWith (rev s)) (map rev white_space) of
                     [] \<Rightarrow> 0 | w # _ \<Rightarrow> length w)"

lemma ws_len_end_le: "ws_len_end s \<le> length s"
proof (cases "filter (startsWith (rev s)) (map rev white_space)")
  case Nil
  then show ?thesis by (simp add: ws_len_end_def)
next
  case (Cons w ws)
  then have "w \<in> set (filter (startsWith (rev s)) (map rev white_space))" by simp
  then have "take (length w) (rev s) = w" by (simp add: startsWith_def)
  then have "length (take (length w) (rev s)) = length w" by simp
  then have "length w \<le> length (rev s)" by simp
  with Cons show ?thesis by (simp add: ws_len_end_def)
qed

function trimEnd :: "string \<Rightarrow> string" where
  "trimEnd s = (if ws_len_end s = 0 then s else trimEnd (take (length s - ws_len_end s) s))"
  by pat_completeness auto
termination
proof (relation "measure length")
  show "wf (measure length)" by simp
next
  fix s :: string
  assume "ws_len_end s \<noteq> 0"
  with ws_len_end_le [of s] show "(take (length s - ws_len_end s) s, s) \<in> measure length"
    by simp
qed

declare trimEnd.simps [simp del]

definition trim :: "string \<Rightarrow> string" where
  "trim s = trimEnd (trimStart s)"

text \<open>\<^verbatim>\<open>s.split("/")\<close>: the pieces between the separators, empty pieces included.\<close>

fun split_on :: "char \<Rightarrow> string \<Rightarrow> string list" where
  "split_on c [] = [[]]"
| "split_on c (x # xs) =
     (if x = c then [] # split_on c xs
      else (case split_on c xs of
              [] \<Rightarrow> [[x]]
            | w # ws \<Rightarrow> (x # w) # ws))"

text \<open>
  \<^verbatim>\<open>s.replace(/\s+/g, "-")\<close>: every run of white space becomes one hyphen.
\<close>

lemma trimStart_shorter: "ws_len s \<noteq> 0 \<Longrightarrow> length (trimStart s) < length s"
proof (induction s rule: trimStart.induct)
  case (1 s)
  have le: "ws_len s \<le> length s" by (rule ws_len_le)
  have step: "trimStart s = trimStart (drop (ws_len s) s)"
    using "1.prems" by (subst trimStart.simps) simp
  show ?case
  proof (cases "ws_len (drop (ws_len s) s) = 0")
    case True
    then have "trimStart (drop (ws_len s) s) = drop (ws_len s) s"
      by (subst trimStart.simps) simp
    with step le "1.prems" show ?thesis by simp
  next
    case False
    with "1.IH" "1.prems" have "length (trimStart (drop (ws_len s) s)) < length (drop (ws_len s) s)"
      by blast
    with step show ?thesis by simp
  qed
qed

function hyphenate :: "string \<Rightarrow> string" where
  "hyphenate s =
     (case s of
        [] \<Rightarrow> []
      | c # cs \<Rightarrow> if ws_len s = 0 then c # hyphenate cs else CHR ''-'' # hyphenate (trimStart s))"
  by pat_completeness auto
termination
proof (relation "measure length")
  show "wf (measure length)" by simp
next
  fix s :: string and c cs
  assume "s = c # cs" "ws_len s = 0"
  then show "(cs, s) \<in> measure length" by simp
next
  fix s :: string and c cs
  assume "s = c # cs" "ws_len s \<noteq> 0"
  then have "length (trimStart s) < length s" by (intro trimStart_shorter)
  then show "(trimStart s, s) \<in> measure length" by simp
qed

declare hyphenate.simps [simp del]

section \<open>The base path (gallery.js, lines 9 to 33)\<close>

text \<open>
  \<^verbatim>\<open>BASE_PATH\<close> is computed once, when the module is loaded, from the host name and the
  path of the page: empty off \<^verbatim>\<open>github.io\<close>, otherwise \<^verbatim>\<open>/\<close> and the first non-empty
  segment of the path (the repository's name).
\<close>

definition BASE_PATH :: "string \<Rightarrow> string \<Rightarrow> string" where
  "BASE_PATH host pathname =
     (if \<not> endsWith host ''github.io'' then ''''
      else (case filter (\<lambda>s. s \<noteq> '''') (split_on CHR ''/'' pathname) of
              [] \<Rightarrow> ''''
            | seg # _ \<Rightarrow> ''/'' @ seg))"

text \<open>
  The test \<^verbatim>\<open>/^https?:\/\//i\<close>: the string starts with \<^verbatim>\<open>http://\<close> or \<^verbatim>\<open>https://\<close>,
  in any case of the letters.
\<close>

definition is_external :: "string \<Rightarrow> bool" where
  "is_external u =
     (startsWith (toLowerCase u) ''http://'' \<or> startsWith (toLowerCase u) ''https://'')"

text \<open>\<^verbatim>\<open>u.replace(/^\.\//, "")\<close>: one leading \<^verbatim>\<open>./\<close> is dropped.\<close>

definition strip_dot_slash :: "string \<Rightarrow> string" where
  "strip_dot_slash u = (if startsWith u ''./'' then drop 2 u else u)"

text \<open>
  \<^verbatim>\<open>withBase\<close>, with the module's constant as its first argument. A falsy \<^verbatim>\<open>url\<close>
  (\<^verbatim>\<open>null\<close>, \<^verbatim>\<open>undefined\<close>, the empty string) gives the empty string.
\<close>

definition withBase :: "string \<Rightarrow> string option \<Rightarrow> string" where
  "withBase base url =
     (case url of
        None \<Rightarrow> ''''
      | Some u \<Rightarrow>
          if u = '''' then ''''
          else if is_external u then u
          else if base \<noteq> '''' \<and> startsWith u (base @ ''/'') then u
          else if startsWith u ''/'' then base @ u
          else base @ ''/'' @ strip_dot_slash u)"

section \<open>The manifest (generated/gallery.json)\<close>

text \<open>
  The objects of the manifest, with the fields the scripts read. A field the manifest may leave
  out is an option. The field \<^verbatim>\<open>notes\<close> of a project is \<open>notes_field\<close> here.
\<close>

record image =
  srcThumb :: "string option"
  srcLarge :: "string option"
  alt :: "string option"

record video =
  kind :: "string option"
  url :: "string option"

record phase =
  images :: "image list option"
  videos :: "video list option"

record phase_set =
  renderings :: "phase option"
  before :: "phase option"
  during :: "phase option"
  after :: "phase option"

record project =
  slug :: string
  title :: "string option"
  location :: "string option"
  date :: "string option"
  projectType :: "string option"
  scope :: "string option"
  summary :: "string option"
  notes_field :: "string option"
  client :: "string option"
  status :: "string option"
  buildingArea :: "string option"
  coverThumb :: "string option"
  sortKey :: "string option"
  phases :: "phase_set option"

record manifest =
  projects :: "project list option"

text \<open>Truthiness of a string that may be missing, and \<^verbatim>\<open>v || d\<close> on strings.\<close>

definition truthy :: "string option \<Rightarrow> bool" where
  "truthy v = (case v of None \<Rightarrow> False | Some s \<Rightarrow> s \<noteq> '''')"

definition or_else :: "string option \<Rightarrow> string \<Rightarrow> string" where
  "or_else v d = (case v of None \<Rightarrow> d | Some s \<Rightarrow> if s = '''' then d else s)"

text \<open>\<^verbatim>\<open>a || []\<close> on an array that may be missing (an empty array is truthy and stays).\<close>

definition or_empty :: "'a list option \<Rightarrow> 'a list" where
  "or_empty v = (case v of None \<Rightarrow> [] | Some xs \<Rightarrow> xs)"

text \<open>\<^verbatim>\<open>p.phases?.renderings\<close> and its siblings.\<close>

definition phase_of :: "(phase_set \<Rightarrow> phase option) \<Rightarrow> project \<Rightarrow> phase option" where
  "phase_of sel p = (case phases p of None \<Rightarrow> None | Some ps \<Rightarrow> sel ps)"

section \<open>Small helpers of gallery.js (lines 35 to 64)\<close>

definition safeText :: "string option \<Rightarrow> string" where
  "safeText v = trim (case v of None \<Rightarrow> '''' | Some s \<Rightarrow> s)"

definition statusClass :: "string option \<Rightarrow> string" where
  "statusClass st =
     (let s = trim (toLowerCase (or_else st ''''))
      in if s = '''' then '''' else hyphenate s)"

definition hasPhaseContent :: "phase option \<Rightarrow> bool" where
  "hasPhaseContent ph =
     (case ph of
        None \<Rightarrow> False
      | Some f \<Rightarrow>
          let imgs = or_empty (images f); vids = or_empty (videos f)
          in length imgs > 0 \<or> length vids > 0)"

definition hasOverviewContent :: "project \<Rightarrow> bool" where
  "hasOverviewContent p =
     (truthy (location p) \<or> truthy (date p) \<or> truthy (projectType p) \<or> truthy (scope p)
      \<or> truthy (client p) \<or> truthy (status p) \<or> truthy (buildingArea p)
      \<or> truthy (notes_field p) \<or> truthy (summary p))"

section \<open>The lightbox (lightbox.js)\<close>

text \<open>
  What a script can raise: a \<^verbatim>\<open>TypeError\<close> (a property read on \<^verbatim>\<open>undefined\<close>), a
  \<^verbatim>\<open>fetch\<close> whose promise is rejected, and a response body that is not JSON.
\<close>

datatype js_error = TypeError | FetchRejected | JsonRejected

text \<open>
  The state of a lightbox: the two variables of the closure (\<open>items\<close>, \<open>idx\<close>) and what it
  shows: the source and the alternative text of the image, the \<^verbatim>\<open>display\<close> style of the two
  arrows, the class \<^verbatim>\<open>open\<close> of the overlay, and the \<^verbatim>\<open>overflow\<close> style of the body. The
  index is a JavaScript number that only ever holds an integer: \<^verbatim>\<open>open\<close> is called with the
  position of a thumbnail.
\<close>

record lightbox =
  items :: "image list"
  idx :: int
  img_src :: string
  img_alt :: string
  prev_display :: string
  next_display :: string
  overlay_open :: bool
  body_overflow :: string

text \<open>\<^verbatim>\<open>createLightbox\<close> finds the elements of the page and starts with no items.\<close>

definition createLightbox :: "lightbox \<Rightarrow> lightbox" where
  "createLightbox elements = elements\<lparr>items := [], idx := 0\<rparr>"

text \<open>
  The remainder \<^verbatim>\<open>a % b\<close> of JavaScript on integers: it has the sign of \<open>a\<close>. (For \<open>b = 0\<close>
  JavaScript gives \<^verbatim>\<open>NaN\<close>; \<^verbatim>\<open>prev\<close> and \<^verbatim>\<open>next\<close> return before they divide by an
  empty list's length.)
\<close>

definition js_rem :: "int \<Rightarrow> int \<Rightarrow> int" where
  "js_rem a b = sgn a * (\<bar>a\<bar> mod \<bar>b\<bar>)"

text \<open>
  \<^verbatim>\<open>render\<close>: nothing on an empty list; otherwise \<^verbatim>\<open>items[idx]\<close> is read, which is
  \<^verbatim>\<open>undefined\<close> outside the list, and reading \<^verbatim>\<open>srcLarge\<close> of it raises. A missing
  \<^verbatim>\<open>srcLarge\<close> is assigned as the text \<^verbatim>\<open>undefined\<close>.
\<close>

definition render :: "lightbox \<Rightarrow> js_error + lightbox" where
  "render lb =
     (if length (items lb) = 0 then Inr lb
      else if 0 \<le> idx lb \<and> idx lb < int (length (items lb)) then
        let it = items lb ! nat (idx lb);
            arrows = (if length (items lb) > 1 then ''block'' else ''none'')
        in Inr (lb\<lparr>img_src := (case srcLarge it of None \<Rightarrow> ''undefined'' | Some s \<Rightarrow> s),
                   img_alt := or_else (alt it) '''',
                   prev_display := arrows,
                   next_display := arrows\<rparr>)
      else Inl TypeError)"

text \<open>\<^verbatim>\<open>open(newItems, startIndex = 0)\<close>.\<close>

definition open_lb :: "image list option \<Rightarrow> int option \<Rightarrow> lightbox \<Rightarrow> js_error + lightbox" where
  "open_lb newItems startIndex lb =
     (let its = or_empty newItems;
          start = (case startIndex of None \<Rightarrow> 0 | Some i \<Rightarrow> i);
          lb1 = lb\<lparr>items := its, idx := max 0 (min start (int (length its) - 1))\<rparr>
      in case render lb1 of
           Inl e \<Rightarrow> Inl e
         | Inr lb2 \<Rightarrow> Inr (lb2\<lparr>overlay_open := True, body_overflow := ''hidden''\<rparr>))"

definition close :: "lightbox \<Rightarrow> lightbox" where
  "close lb = lb\<lparr>overlay_open := False, body_overflow := ''''\<rparr>"

definition prev :: "lightbox \<Rightarrow> js_error + lightbox" where
  "prev lb =
     (if length (items lb) = 0 then Inr lb
      else render (lb\<lparr>idx := js_rem (idx lb - 1 + int (length (items lb)))
                                      (int (length (items lb)))\<rparr>))"

definition next_lb :: "lightbox \<Rightarrow> js_error + lightbox" where
  "next_lb lb =
     (if length (items lb) = 0 then Inr lb
      else render (lb\<lparr>idx := js_rem (idx lb + 1) (int (length (items lb)))\<rparr>))"

text \<open>The key handler: keys are read only while the overlay is open.\<close>

definition keydown :: "string \<Rightarrow> lightbox \<Rightarrow> js_error + lightbox" where
  "keydown k lb =
     (if \<not> overlay_open lb then Inr lb
      else if k = ''Escape'' then Inr (close lb)
      else if k = ''ArrowLeft'' then prev lb
      else if k = ''ArrowRight'' then next_lb lb
      else Inr lb)"

text \<open>
  The states a lightbox can be in: the one \<^verbatim>\<open>createLightbox\<close> starts with, and every state
  that \<^verbatim>\<open>open\<close>, the two arrows, closing and the keys lead to without raising.
\<close>

inductive reachable :: "lightbox \<Rightarrow> bool" where
  created: "reachable (createLightbox elements)"
| opened: "reachable lb \<Longrightarrow> open_lb newItems startIndex lb = Inr lb' \<Longrightarrow> reachable lb'"
| closed: "reachable lb \<Longrightarrow> reachable (close lb)"
| went_prev: "reachable lb \<Longrightarrow> prev lb = Inr lb' \<Longrightarrow> reachable lb'"
| went_next: "reachable lb \<Longrightarrow> next_lb lb = Inr lb' \<Longrightarrow> reachable lb'"
| key: "reachable lb \<Longrightarrow> keydown k lb = Inr lb' \<Longrightarrow> reachable lb'"

text \<open>The index is a position of the list, when the list has one.\<close>

definition idx_in_range :: "lightbox \<Rightarrow> bool" where
  "idx_in_range lb = (items lb = [] \<or> (0 \<le> idx lb \<and> idx lb < int (length (items lb))))"

section \<open>The browser around the scripts\<close>

text \<open>
  What the scripts read from the browser: the host name and the path of the page, the
  \<^verbatim>\<open>tab\<close> parameter of its query (\<open>None\<close> when the query has none), what \<^verbatim>\<open>fetch\<close>
  answers for a URL, and the collation behind \<^verbatim>\<open>localeCompare\<close>.

  A \<^verbatim>\<open>fetch\<close> either is rejected (no response at all: the network failed) or gives a
  response with its \<^verbatim>\<open>ok\<close> flag and its body; the body is \<open>None\<close> when it is not JSON,
  so that \<^verbatim>\<open>res.json()\<close> is rejected.
\<close>

datatype fetch_result = Rejected | Response bool "manifest option"

record env =
  hostname :: string
  pathname :: string
  tab_param :: "string option"
  fetch :: "string \<Rightarrow> fetch_result"
  localeCompare :: "string \<Rightarrow> string \<Rightarrow> int"

text \<open>
  Bytes of the UTF-8 text in the markup, and the card with muted text that both pages use for a
  message.
\<close>

definition utf8 :: "nat list \<Rightarrow> string" where
  "utf8 bs = map char_of bs"

definition muted_card :: "string \<Rightarrow> string" where
  \<open>muted_card msg =
     ''<div class="card" style="padding:16px;color:var(--muted)">'' @ msg @ ''</div>''\<close>

text \<open>A template literal prints \<^verbatim>\<open>null\<close> for a missing attribute.\<close>

definition template_text :: "string option \<Rightarrow> string" where
  "template_text v = (case v of None \<Rightarrow> ''null'' | Some s \<Rightarrow> s)"

section \<open>The home page (gallery.js, lines 66 to 158)\<close>

text \<open>
  A project card: the classes of the card, the link around the cover with its image and the
  status flag (class and text) when the project has a status, the title link and the detail
  button. Inline styles are left out.
\<close>

record card =
  card_classes :: "string list"
  cover_href :: string
  cover_alt :: string
  cover_src :: string
  status_flag :: "(string \<times> string) option"
  title_href :: string
  title_label :: string
  detail_href :: string

definition buildProjectCard :: "string \<Rightarrow> project \<Rightarrow> card" where
  "buildProjectCard base p =
     (let mediaUrl = ''projects/'' @ slug p @ ''/?tab=all'';
          overviewUrl = ''projects/'' @ slug p @ ''/?tab=overview'';
          sc = statusClass (status p)
      in \<lparr>card_classes = [''card'', ''project-card''] @ (if sc \<noteq> '''' then [''status-'' @ sc] else []),
          cover_href = withBase base (Some mediaUrl),
          cover_alt = or_else (title p) (slug p),
          cover_src = withBase base (Some (or_else (coverThumb p) '''')),
          status_flag = (if truthy (status p)
                         then Some (''status-flag '' @ statusClass (status p), or_else (status p) '''')
                         else None),
          title_href = withBase base (Some overviewUrl),
          title_label = or_else (title p) (slug p),
          detail_href = withBase base (Some mediaUrl)\<rparr>)"

text \<open>
  \<^verbatim>\<open>Array.prototype.sort\<close> with a comparison function is a stable sort: an element moves
  behind another one only when the comparison of the two is positive. It is modelled by the
  stable insertion sort.
\<close>

fun insert_by :: "('a \<Rightarrow> 'a \<Rightarrow> int) \<Rightarrow> 'a \<Rightarrow> 'a list \<Rightarrow> 'a list" where
  "insert_by cmp x [] = [x]"
| "insert_by cmp x (y # ys) = (if cmp x y \<le> 0 then x # y # ys else y # insert_by cmp x ys)"

definition sort_by :: "('a \<Rightarrow> 'a \<Rightarrow> int) \<Rightarrow> 'a list \<Rightarrow> 'a list" where
  "sort_by cmp xs = foldr (insert_by cmp) xs []"

text \<open>The key a project is sorted by: \<^verbatim>\<open>p.sortKey || ""\<close>.\<close>

definition sortKey_text :: "project \<Rightarrow> string" where
  "sortKey_text p = or_else (sortKey p) ''''"

text \<open>The projects of the home page, in the order of their cards (lines 142 to 144).\<close>

definition home_projects :: "env \<Rightarrow> manifest \<Rightarrow> project list" where
  "home_projects e data =
     sort_by (\<lambda>a b. localeCompare e (sortKey_text b) (sortKey_text a)) (or_empty (projects data))"

text \<open>
  The content of an element: the markup last assigned to its \<^verbatim>\<open>innerHTML\<close>, or the nodes
  appended after it was emptied.
\<close>

datatype 'n content = Markup string | Nodes "'n list"

text \<open>
  The grid of the home page holds project cards, or one card with a notice that there is no
  project yet (given by its \<^verbatim>\<open>innerHTML\<close>).
\<close>

datatype grid_node = Notice string | ProjectCard card

definition no_projects_notice :: string where
  \<open>no_projects_notice =
     ''<div style="padding:16px;color:var(--muted)">'' @
     utf8 [0xE8, 0xBF, 0x98, 0xE6, 0xB2, 0xA1, 0xE6, 0x9C, 0x89, 0xE9, 0xA1, 0xB9, 0xE7, 0x9B,
           0xAE, 0xE3, 0x80, 0x82, 0xE6, 0x8A, 0x8A, 0xE7, 0x85, 0xA7, 0xE7, 0x89, 0x87, 0xE6,
           0x94, 0xBE, 0xE8, 0xBF, 0x9B] @
     '' <code>projects/&lt;slug&gt;/before|during|after</code>'' @
     utf8 [0xEF, 0xBC, 0x8C, 0xE7, 0x84, 0xB6, 0xE5, 0x90, 0x8E, 0xE8, 0xBF, 0x90, 0xE8, 0xA1,
           0x8C] @
     '' <code>python3 tools/build.py</code> '' @
     utf8 [0xE7, 0x94, 0x9F, 0xE6, 0x88, 0x90, 0xE7, 0xB4, 0xA2, 0xE5, 0xBC, 0x95, 0xE3, 0x80,
           0x82] @
     ''</div>''\<close>

section \<open>The project page (gallery.js, lines 160 to 452)\<close>

text \<open>
  A media section of a phase: its key and heading, a node for each video, the thumbnails
  (source and alternative text), the images handed to the lightbox when a thumbnail is clicked
  (\<^verbatim>\<open>fixedImages\<close>), and whether the section carries the class \<^verbatim>\<open>hidden\<close>.
\<close>

datatype video_node = Iframe string | VideoFile string | EmptyVideoCard

record gallery_section =
  sec_phase :: string
  sec_heading :: string
  sec_videos :: "video_node list"
  sec_thumbs :: "(string \<times> string) list"
  sec_items :: "image list"
  sec_hidden :: bool

definition video_card :: "string \<Rightarrow> video \<Rightarrow> video_node" where
  "video_card base v =
     (if kind v = Some ''embed'' \<and> truthy (url v) then Iframe (or_else (url v) '''')
      else if kind v = Some ''file'' \<and> truthy (url v) then VideoFile (withBase base (url v))
      else EmptyVideoCard)"

definition fixedImages :: "string \<Rightarrow> image list \<Rightarrow> image list" where
  "fixedImages base imgs =
     map (\<lambda>x. x\<lparr>srcThumb := Some (withBase base (srcThumb x)),
                 srcLarge := Some (withBase base (srcLarge x))\<rparr>) imgs"

definition renderPhase :: "string \<Rightarrow> string \<Rightarrow> string \<Rightarrow> phase option \<Rightarrow> gallery_section option" where
  "renderPhase base phaseKey phaseTitle ph =
     (case ph of
        None \<Rightarrow> None
      | Some f \<Rightarrow>
          let imgs = or_empty (images f); vids = or_empty (videos f)
          in if length imgs = 0 \<and> length vids = 0 then None
             else Some \<lparr>sec_phase = phaseKey,
                        sec_heading = phaseTitle,
                        sec_videos = map (video_card base) vids,
                        sec_thumbs = map (\<lambda>x. (or_else (srcThumb x) '''', or_else (alt x) ''''))
                                         (fixedImages base imgs),
                        sec_items = fixedImages base imgs,
                        sec_hidden = False\<rparr>)"

text \<open>A click on the thumbnail at position \<open>i\<close> of a section opens the lightbox there.\<close>

definition click_thumb :: "gallery_section \<Rightarrow> nat \<Rightarrow> lightbox \<Rightarrow> js_error + lightbox" where
  "click_thumb sec i lb = open_lb (Some (sec_items sec)) (Some (int i)) lb"

text \<open>
  The sections area holds the sections, or one card saying that the project has no media yet.
\<close>

datatype gallery_node = NoMedia string | Section gallery_section

definition no_media_notice :: string where
  \<open>no_media_notice =
     ''<div style="padding:16px;color:var(--muted)">'' @
     utf8 [0xE8, 0xBF, 0x99, 0xE4, 0xB8, 0xAA, 0xE9, 0xA1, 0xB9, 0xE7, 0x9B, 0xAE, 0xE8, 0xBF,
           0x98, 0xE6, 0xB2, 0xA1, 0xE6, 0x9C, 0x89, 0xE5, 0xAA, 0x92, 0xE4, 0xBD, 0x93, 0xE5,
           0x86, 0x85, 0xE5, 0xAE, 0xB9, 0xE3, 0x80, 0x82, 0xE6, 0x8A, 0x8A, 0xE7, 0x85, 0xA7,
           0xE7, 0x89, 0x87, 0xE6, 0x94, 0xBE, 0xE8, 0xBF, 0x9B, 0xE8, 0xAF, 0xA5, 0xE9, 0xA1,
           0xB9, 0xE7, 0x9B, 0xAE, 0xE7, 0x9A, 0x84] @
     '' before/during/after '' @
     utf8 [0xE6, 0x96, 0x87, 0xE4, 0xBB, 0xB6, 0xE5, 0xA4, 0xB9, 0xE5, 0x90, 0x8E, 0xE5, 0x86,
           0x8D, 0xE8, 0xBF, 0x90, 0xE8, 0xA1, 0x8C, 0xE6, 0x9E, 0x84, 0xE5, 0xBB, 0xBA, 0xE8,
           0x84, 0x9A, 0xE6, 0x9C, 0xAC, 0xE5, 0x8D, 0xB3, 0xE5, 0x8F, 0xAF, 0xE3, 0x80, 0x82] @
     ''</div>''\<close>

definition not_found_text :: "string option \<Rightarrow> string" where
  "not_found_text slug_attr =
     utf8 [0xE6, 0x9C, 0xAA, 0xE6, 0x89, 0xBE, 0xE5, 0x88, 0xB0, 0xE9, 0xA1, 0xB9, 0xE7, 0x9B,
           0xAE, 0xEF, 0xBC, 0x9A] @ template_text slug_attr"

record tab_button =
  tab_key :: string
  tab_label :: string
  tab_active :: bool

text \<open>
  The elements of a project page that the script writes: the mount, the title with the status
  badge (class and text) in it, the subtitle (text and \<^verbatim>\<open>display\<close> style; the page may have
  none), the overview section, the rows of the info list (key and value), the sections area,
  the tab bar, the overview block (whether it is hidden; the page may have none) and the
  lightbox. A page that has the mount is taken to have the elements the script uses without
  a check.
\<close>

record project_dom =
  mount_html :: string
  title_text :: string
  status_badge :: "(string \<times> string) option"
  subtitle :: "(string \<times> string) option"
  overview_html :: string
  info_list :: "(string \<times> string) list"
  gallery :: "gallery_node list"
  tabs :: "tab_button list"
  overview_hidden :: "bool option"
  lightbox_of :: lightbox

text \<open>
  A page: the two attributes of its body, the grid of the home page and the part of a project
  page, each \<open>None\<close> on a page without it.
\<close>

record page =
  gallery_url_attr :: "string option"
  project_slug_attr :: "string option"
  projectsGrid :: "grid_node content option"
  projectMount :: "project_dom option"

definition renderHome :: "env \<Rightarrow> page \<Rightarrow> js_error + page" where
  "renderHome e pg =
     (case projectsGrid pg of
        None \<Rightarrow> Inr pg
      | Some _ \<Rightarrow>
          let dataUrl = or_else (gallery_url_attr pg) ''generated/gallery.json'';
              base = BASE_PATH (hostname e) (pathname e)
          in (case fetch e (withBase base (Some dataUrl)) of
                Rejected \<Rightarrow> Inl FetchRejected
              | Response ok body \<Rightarrow>
                  if \<not> ok then
                    Inr (pg\<lparr>projectsGrid :=
                               Some (Markup (muted_card (''Failed to load '' @ dataUrl)))\<rparr>)
                  else
                    (case body of
                       None \<Rightarrow> Inl JsonRejected
                     | Some data \<Rightarrow>
                         let ps = home_projects e data
                         in if length ps = 0 then
                              Inr (pg\<lparr>projectsGrid := Some (Nodes [Notice no_projects_notice])\<rparr>)
                            else
                              Inr (pg\<lparr>projectsGrid :=
                                         Some (Nodes (map (\<lambda>p. ProjectCard (buildProjectCard base p))
                                                          ps))\<rparr>))))"

definition buildInfoItem :: "string \<Rightarrow> string \<Rightarrow> string \<times> string" where
  "buildInfoItem k v = (k, v)"

text \<open>The rows of the overview (lines 294 to 311).\<close>

definition fields_of :: "project \<Rightarrow> (string \<times> string) list" where
  "fields_of p =
     [(''Location'', safeText (location p)),
      (''Date'', safeText (date p)),
      (''Project Type'', safeText (projectType p)),
      (''Scope'', safeText (scope p)),
      (''Summary'', safeText (summary p)),
      (''Notes'', safeText (notes_field p)),
      (''Client'', safeText (client p)),
      (''Status'', safeText (status p)),
      (''Building Area'', safeText (buildingArea p))]"

definition info_rows :: "project \<Rightarrow> (string \<times> string) list" where
  "info_rows p =
     (let rows = map (\<lambda>(k, v). buildInfoItem k v) (filter (\<lambda>(k, v). v \<noteq> '''') (fields_of p))
      in if length rows = 0 then [buildInfoItem ''Info'' ''No details provided yet.''] else rows)"

text \<open>The media sections (lines 319 to 342).\<close>

definition sections :: "string \<Rightarrow> project \<Rightarrow> gallery_section list" where
  "sections base p =
     List.map_filter (\<lambda>s. s)
       [renderPhase base ''renderings'' ''Renderings'' (phase_of renderings p),
        renderPhase base ''before'' ''Before'' (phase_of before p),
        renderPhase base ''during'' ''During'' (phase_of during p),
        renderPhase base ''after'' ''After'' (phase_of after p)]"

text \<open>The tabs, key and label: only what exists (lines 348 to 361).\<close>

definition tabList :: "project \<Rightarrow> (string \<times> string) list" where
  "tabList p =
     (let anyMedia = (hasPhaseContent (phase_of renderings p) \<or> hasPhaseContent (phase_of before p)
                      \<or> hasPhaseContent (phase_of during p) \<or> hasPhaseContent (phase_of after p))
      in (if hasOverviewContent p then [(''overview'', ''Overview'')] else [])
         @ (if anyMedia then [(''all'', ''All'')] else [])
         @ (if hasPhaseContent (phase_of renderings p) then [(''renderings'', ''Renderings'')] else [])
         @ (if hasPhaseContent (phase_of before p) then [(''before'', ''Before'')] else [])
         @ (if hasPhaseContent (phase_of during p) then [(''during'', ''During'')] else [])
         @ (if hasPhaseContent (phase_of after p) then [(''after'', ''After'')] else []))"

definition setActive :: "string \<Rightarrow> project_dom \<Rightarrow> project_dom" where
  "setActive tab d = d\<lparr>tabs := map (\<lambda>b. b\<lparr>tab_active := (tab_key b = tab)\<rparr>) (tabs d)\<rparr>"

definition showOverview :: "bool \<Rightarrow> project_dom \<Rightarrow> project_dom" where
  "showOverview on d = d\<lparr>overview_hidden := map_option (\<lambda>_. \<not> on) (overview_hidden d)\<rparr>"

text \<open>
  The two functions below go through the sections of the sections area; the card of a project
  without media is no section.
\<close>

definition hide_where :: "(gallery_section \<Rightarrow> bool) \<Rightarrow> gallery_node \<Rightarrow> gallery_node" where
  "hide_where f n = (case n of NoMedia h \<Rightarrow> NoMedia h | Section s \<Rightarrow> Section (s\<lparr>sec_hidden := f s\<rparr>))"

definition showMediaAll :: "bool \<Rightarrow> project_dom \<Rightarrow> project_dom" where
  "showMediaAll on d = d\<lparr>gallery := map (hide_where (\<lambda>_. \<not> on)) (gallery d)\<rparr>"

definition showOnlyPhase :: "string \<Rightarrow> project_dom \<Rightarrow> project_dom" where
  "showOnlyPhase phaseKey d =
     d\<lparr>gallery := map (hide_where (\<lambda>s. sec_phase s \<noteq> phaseKey)) (gallery d)\<rparr>"

definition switchTab :: "string \<Rightarrow> project_dom \<Rightarrow> project_dom" where
  "switchTab tab d =
     (let d1 = setActive tab d
      in if tab = ''overview'' then
           (let d2 = showMediaAll False (showOverview True d1)
            in d2\<lparr>gallery := map (hide_where (\<lambda>_. True)) (gallery d2)\<rparr>)
         else
           (let d2 = showOverview False d1
            in if tab = ''all'' then showMediaAll True d2 else showOnlyPhase tab d2))"

text \<open>The tab the page starts on (lines 437 to 449).\<close>

definition defaultTab :: "(string \<times> string) list \<Rightarrow> string option \<Rightarrow> string" where
  "defaultTab tbs param =
     (let want = toLowerCase (or_else param '''');
          available = set (map fst tbs);
          first_choice = (if length tbs \<noteq> 0 then fst (hd tbs) else ''overview'');
          chosen = (if want = ''overview'' \<and> ''overview'' \<in> available then ''overview''
                    else if (want = ''all'' \<or> want = ''media'') \<and> ''all'' \<in> available then ''all''
                    else if want \<in> available then want
                    else first_choice)
      in if chosen \<notin> available \<and> ''all'' \<in> available then ''all'' else chosen)"

text \<open>
  Everything \<^verbatim>\<open>renderProject\<close> builds for the project it found, before it switches to the
  first tab (lines 262 to 421). The title is the project's, or the slug attribute of the page;
  \<^verbatim>\<open>textContent\<close> is emptied by \<^verbatim>\<open>null\<close>.
\<close>

definition text_content :: "string option \<Rightarrow> string" where
  "text_content v = (case v of None \<Rightarrow> '''' | Some s \<Rightarrow> s)"

definition build_project :: "string \<Rightarrow> project \<Rightarrow> string option \<Rightarrow> project_dom \<Rightarrow> project_dom" where
  "build_project base p slug_attr d =
     d\<lparr>title_text := or_else (title p) (text_content slug_attr),
       status_badge := (if truthy (status p)
                        then Some (''badge status '' @ statusClass (status p), or_else (status p) '''')
                        else None),
       subtitle := map_option (\<lambda>_. ('''', ''none'')) (subtitle d),
       overview_html := '''',
       info_list := info_rows p,
       lightbox_of := createLightbox (lightbox_of d),
       gallery := (if length (sections base p) = 0 then [NoMedia no_media_notice]
                   else map Section (sections base p)),
       tabs := map (\<lambda>(k, l). \<lparr>tab_key = k, tab_label = l, tab_active = False\<rparr>) (tabList p)\<rparr>"

text \<open>A click on the title or on the status badge shows the overview, when it has a tab.\<close>

definition click_title :: "project_dom \<Rightarrow> project_dom" where
  "click_title d = (if ''overview'' \<in> set (map tab_key (tabs d)) then switchTab ''overview'' d else d)"

definition renderProject :: "env \<Rightarrow> page \<Rightarrow> js_error + page" where
  "renderProject e pg =
     (case projectMount pg of
        None \<Rightarrow> Inr pg
      | Some d \<Rightarrow>
          let slug_attr = project_slug_attr pg;
              dataUrl = gallery_url_attr pg;
              base = BASE_PATH (hostname e) (pathname e)
          in (case fetch e (withBase base dataUrl) of
               Rejected \<Rightarrow> Inl FetchRejected
             | Response ok body \<Rightarrow>
                 if \<not> ok then
                   Inr (pg\<lparr>projectMount :=
                              Some (d\<lparr>mount_html :=
                                         muted_card (''Failed to load '' @ template_text dataUrl)\<rparr>)\<rparr>)
                 else
                   (case body of
                      None \<Rightarrow> Inl JsonRejected
                    | Some data \<Rightarrow>
                        (case find (\<lambda>x. Some (slug x) = slug_attr) (or_empty (projects data)) of
                           None \<Rightarrow>
                             Inr (pg\<lparr>projectMount :=
                                        Some (d\<lparr>mount_html := muted_card (not_found_text slug_attr)\<rparr>)\<rparr>)
                         | Some p \<Rightarrow>
                             Inr (pg\<lparr>projectMount :=
                                        Some (switchTab (defaultTab (tabList p) (tab_param e))
                                                (build_project base p slug_attr d))\<rparr>)))))"

text \<open>When the document is loaded, the home page is rendered, then the project page.\<close>

definition on_load :: "env \<Rightarrow> page \<Rightarrow> js_error + page" where
  "on_load e pg = (case renderHome e pg of Inl err \<Rightarrow> Inl err | Inr pg' \<Rightarrow> renderProject e pg')"

section \<open>Notions of the specification\<close>

text \<open>
  The number of images and videos of a phase: a phase \<open>contains at least one image or video\<close>
  when it is positive. A phase that the project leaves out has none.
\<close>

definition media_count :: "phase option \<Rightarrow> nat" where
  "media_count ph =
     (case ph of None \<Rightarrow> 0 | Some f \<Rightarrow> length (or_empty (images f)) + length (or_empty (videos f)))"

text \<open>The four phases, each with its key.\<close>

definition phase_table :: "(string \<times> (phase_set \<Rightarrow> phase option)) list" where
  "phase_table =
     [(''renderings'', renderings), (''before'', before), (''during'', during), (''after'', after)]"

text \<open>The keys of the tab buttons and the phases of the sections that a project page shows.\<close>

definition tab_keys :: "project_dom \<Rightarrow> string list" where
  "tab_keys d = map tab_key (tabs d)"

definition section_phases :: "project_dom \<Rightarrow> string list" where
  "section_phases d =
     concat (map (\<lambda>n. case n of NoMedia h \<Rightarrow> [] | Section s \<Rightarrow> [sec_phase s]) (gallery d))"

text \<open>The nine metadata fields of the overview, each with its label.\<close>

definition field_table :: "(string \<times> (project \<Rightarrow> string option)) list" where
  "field_table =
     [(''Location'', location), (''Date'', date), (''Project Type'', projectType),
      (''Scope'', scope), (''Summary'', summary), (''Notes'', notes_field), (''Client'', client),
      (''Status'', status), (''Building Area'', buildingArea)]"

text \<open>
  A collation is consistent when comparing two strings the other way round flips the sign and
  the order it gives is transitive, as ECMAScript requires of \<^verbatim>\<open>localeCompare\<close>.
\<close>

definition consistent :: "(string \<Rightarrow> string \<Rightarrow> int) \<Rightarrow> bool" where
  "consistent lc =
     ((\<forall>a b. (lc a b < 0) = (0 < lc b a)) \<and> (\<forall>a b c. lc a b \<le> 0 \<and> lc b c \<le> 0 \<longrightarrow> lc a c \<le> 0))"

text \<open>
  The tab a project page starts on, in the words of the specification: the wanted tab when it is
  among the tabs, otherwise the first tab, and the tab of all media when there is no first tab.
\<close>

definition claimed_tab :: "string list \<Rightarrow> string \<Rightarrow> string" where
  "claimed_tab keys want =
     (if want \<in> set keys then want else if keys \<noteq> [] then hd keys else ''all'')"

text \<open>
  The tab a project page starts on, with the two cases the specification leaves out: the wanted
  tab when it is among the tabs, the tab of all media when \<^verbatim>\<open>media\<close> is wanted and that tab
  exists, otherwise the first tab, and the overview when the project has no tab at all.
\<close>

definition chosen_tab :: "string list \<Rightarrow> string \<Rightarrow> string" where
  "chosen_tab keys want =
     (if want \<in> set keys then want
      else if want = ''media'' \<and> ''all'' \<in> set keys then ''all''
      else if keys \<noteq> [] then hd keys
      else ''overview'')"

section \<open>A sample site\<close>

text \<open>
  Concrete inputs on which the theorems below are instantiated: three images of one phase, the
  elements of a lightbox before and after \<^verbatim>\<open>open(images, 7)\<close>.
\<close>

definition sample_images :: "image list" where
  "sample_images =
     [\<lparr>srcThumb = Some ''/generated/hall/thumb/a.jpg'', srcLarge = Some ''/generated/hall/large/a.jpg'',
       alt = Some ''Front''\<rparr>,
      \<lparr>srcThumb = Some ''/generated/hall/thumb/b.jpg'', srcLarge = Some ''/generated/hall/large/b.jpg'',
       alt = None\<rparr>,
      \<lparr>srcThumb = Some ''/generated/hall/thumb/c.jpg'', srcLarge = Some ''/generated/hall/large/c.jpg'',
       alt = Some ''Roof''\<rparr>]"

definition sample_elements :: lightbox where
  "sample_elements =
     \<lparr>items = [], idx = 0, img_src = '''', img_alt = '''', prev_display = '''', next_display = '''',
      overlay_open = False, body_overflow = ''''\<rparr>"

definition sample_opened :: lightbox where
  "sample_opened =
     \<lparr>items = sample_images, idx = 2, img_src = ''/generated/hall/large/c.jpg'', img_alt = ''Roof'',
      prev_display = ''block'', next_display = ''block'', overlay_open = True,
      body_overflow = ''hidden''\<rparr>"

text \<open>
  Three projects: one with an overview and pictures of the phase before, one with nothing but
  its slug, and one with a sort key only. The manifest lists them in this order.
\<close>

definition hall_project :: project where
  "hall_project =
     \<lparr>slug = ''hall'', title = Some ''School Hall'', location = Some '' Darwin '', date = None,
      projectType = None, scope = None, summary = None, notes_field = Some ''   '', client = None,
      status = Some ''In Progress'', buildingArea = None,
      coverThumb = Some ''generated/hall/thumb/a.jpg'', sortKey = Some ''2024-05'',
      phases = Some \<lparr>renderings = None,
                      before = Some \<lparr>images = Some sample_images, videos = None\<rparr>,
                      during = Some \<lparr>images = Some [], videos = Some []\<rparr>,
                      after = None\<rparr>\<rparr>"

definition shed_project :: project where
  "shed_project =
     \<lparr>slug = ''shed'', title = None, location = None, date = None, projectType = None,
      scope = None, summary = None, notes_field = None, client = None, status = None,
      buildingArea = None, coverThumb = None, sortKey = None, phases = None\<rparr>"

definition pool_project :: project where
  "pool_project =
     \<lparr>slug = ''pool'', title = Some ''Pool'', location = None, date = None, projectType = None,
      scope = None, summary = None, notes_field = None, client = None, status = None,
      buildingArea = None, coverThumb = None, sortKey = Some ''2025-01'', phases = None\<rparr>"

definition sample_manifest :: manifest where
  "sample_manifest = \<lparr>projects = Some [hall_project, shed_project, pool_project]\<rparr>"

text \<open>
  A collation for the sample: the order of the bytes. The browser's own depends on its locale.
\<close>

definition byte_order :: "string \<Rightarrow> string \<Rightarrow> int" where
  "byte_order a b = (if a < b then - 1 else if a = b then 0 else 1)"

text \<open>
  The site on GitHub Pages, asked for the tab \<^verbatim>\<open>Media\<close>; the same site when the manifest is
  answered with an error status; and when the network is down.
\<close>

definition sample_env :: env where
  "sample_env =
     \<lparr>hostname = ''user.github.io'', pathname = ''/site/projects/hall/'',
      tab_param = Some ''Media'',
      fetch = (\<lambda>u. if u = ''/site/generated/gallery.json'' then Response True (Some sample_manifest)
                    else Response False None),
      localeCompare = byte_order\<rparr>"

definition missing_env :: env where
  "missing_env = sample_env\<lparr>fetch := (\<lambda>u. Response False None)\<rparr>"

definition offline_env :: env where
  "offline_env = sample_env\<lparr>fetch := (\<lambda>u. Rejected)\<rparr>"

definition sample_dom :: project_dom where
  "sample_dom =
     \<lparr>mount_html = '''', title_text = ''Project'', status_badge = None,
      subtitle = Some (''Loading'', ''''), overview_html = '''', info_list = [], gallery = [],
      tabs = [], overview_hidden = Some False, lightbox_of = sample_elements\<rparr>"

definition hall_page :: page where
  "hall_page =
     \<lparr>gallery_url_attr = Some ''/generated/gallery.json'', project_slug_attr = Some ''hall'',
      projectsGrid = None, projectMount = Some sample_dom\<rparr>"

definition home_page :: page where
  "home_page =
     \<lparr>gallery_url_attr = None, project_slug_attr = None,
      projectsGrid = Some (Markup ''''), projectMount = None\<rparr>"

text \<open>The pages of the shed and of a project that the manifest does not list.\<close>

definition shed_page :: page where
  "shed_page = hall_page\<lparr>project_slug_attr := Some ''shed''\<rparr>"

definition barn_page :: page where
  "barn_page = hall_page\<lparr>project_slug_attr := Some ''barn''\<rparr>"

section \<open>Properties of the base path helper\<close>

lemma startsWith_append: "startsWith (p @ s) p"
  by (simp add: startsWith_def)

lemma startsWith_slash_Cons: "startsWith (CHR ''/'' # s) ''/''"
  by (simp add: startsWith_def)

lemma startsWith_base_slash: "startsWith u ''/'' \<Longrightarrow> startsWith (base @ u) (base @ ''/'')"
  by (simp add: startsWith_def)

lemma withBase_fixed:
  assumes "r \<noteq> ''''" and "startsWith r (base @ ''/'')"
  shows "withBase base (Some r) = r"
proof (cases "base = ''''")
  case True
  with assms show ?thesis by (simp add: withBase_def)
next
  case False
  with assms show ?thesis by (simp add: withBase_def)
qed

text \<open>
  Claim C10. \<^verbatim>\<open>withBase\<close> is idempotent, whatever the base path of the module is: applied
  to its own result it returns that result. An external URL (\<^verbatim>\<open>http://\<close> or
  \<^verbatim>\<open>https://\<close>, in any case of the letters) and a URL that already starts with the base
  path and a slash are returned as they are.
\<close>

theorem withBase_idempotent:
  "withBase base (Some (withBase base link)) = withBase base link
   \<and> (is_external u \<longrightarrow> withBase base (Some u) = u)
   \<and> (startsWith v (base @ ''/'') \<longrightarrow> withBase base (Some v) = v)"
proof (intro conjI impI)
  show "withBase base (Some (withBase base link)) = withBase base link"
  proof (cases link)
    case None
    then show ?thesis by (simp add: withBase_def)
  next
    case (Some w)
    consider (empty) "w = ''''"
      | (ext) "w \<noteq> ''''" "is_external w"
      | (has) "w \<noteq> ''''" "\<not> is_external w" "base \<noteq> ''''" "startsWith w (base @ ''/'')"
      | (root) "w \<noteq> ''''" "\<not> is_external w" "\<not> (base \<noteq> '''' \<and> startsWith w (base @ ''/''))"
          "startsWith w ''/''"
      | (rel) "w \<noteq> ''''" "\<not> is_external w" "\<not> (base \<noteq> '''' \<and> startsWith w (base @ ''/''))"
          "\<not> startsWith w ''/''"
      by blast
    then show ?thesis
    proof cases
      case empty
      with Some show ?thesis by (simp add: withBase_def)
    next
      case ext
      with Some show ?thesis by (simp add: withBase_def)
    next
      case has
      with Some show ?thesis by (simp add: withBase_def)
    next
      case root
      then have r: "withBase base link = base @ w" using Some by (auto simp: withBase_def)
      have ne: "base @ w \<noteq> ''''" using root(1) by simp
      have "startsWith (base @ w) (base @ ''/'')"
        using root(4) by (rule startsWith_base_slash)
      with ne have "withBase base (Some (base @ w)) = base @ w" by (rule withBase_fixed)
      with r show ?thesis by simp
    next
      case rel
      then have r: "withBase base link = base @ ''/'' @ strip_dot_slash w"
        using Some by (auto simp: withBase_def)
      have ne: "base @ ''/'' @ strip_dot_slash w \<noteq> ''''" by simp
      have "startsWith (base @ ''/'' @ strip_dot_slash w) (base @ ''/'')"
        by (simp add: startsWith_def)
      with ne have "withBase base (Some (base @ ''/'' @ strip_dot_slash w))
                      = base @ ''/'' @ strip_dot_slash w"
        by (rule withBase_fixed)
      with r show ?thesis by simp
    qed
  qed
next
  assume "is_external u"
  then show "withBase base (Some u) = u" by (auto simp: withBase_def)
next
  assume pre: "startsWith v (base @ ''/'')"
  show "withBase base (Some v) = v"
  proof (cases "v = ''''")
    case True
    then show ?thesis by (simp add: withBase_def)
  next
    case False
    then show ?thesis using pre by (rule withBase_fixed)
  qed
qed

text \<open>
  The three parts at work on a GitHub Pages site whose repository is \<^verbatim>\<open>site\<close>: a relative
  URL, an external one and one that carries the base path.
\<close>

theorem withBase_idempotent_witness:
  "BASE_PATH ''user.github.io'' ''/site/projects/x/'' = ''/site''
   \<and> withBase ''/site'' (Some ''./generated/gallery.json'') = ''/site/generated/gallery.json''
   \<and> withBase ''/site'' (Some (withBase ''/site'' (Some ''./generated/gallery.json'')))
       = ''/site/generated/gallery.json''
   \<and> is_external ''HTTPS://example.org/a.jpg''
   \<and> withBase ''/site'' (Some ''HTTPS://example.org/a.jpg'') = ''HTTPS://example.org/a.jpg''
   \<and> startsWith ''/site/generated/x.jpg'' (''/site'' @ ''/'')
   \<and> withBase ''/site'' (Some ''/site/generated/x.jpg'') = ''/site/generated/x.jpg''"
proof -
  have b: "BASE_PATH ''user.github.io'' ''/site/projects/x/'' = ''/site''" by code_simp
  have r: "withBase ''/site'' (Some ''./generated/gallery.json'') = ''/site/generated/gallery.json''"
    by code_simp
  have e: "is_external ''HTTPS://example.org/a.jpg''" by code_simp
  have s: "startsWith ''/site/generated/x.jpg'' (''/site'' @ ''/'')" by code_simp
  from withBase_idempotent [of "''/site''" "Some ''./generated/gallery.json''"
      "''HTTPS://example.org/a.jpg''" "''/site/generated/x.jpg''"] b r e s
  show ?thesis by simp
qed

section \<open>Properties of the lightbox\<close>

lemma js_rem_mod: "0 \<le> a \<Longrightarrow> 0 < b \<Longrightarrow> js_rem a b = a mod b"
  by (cases "a = 0") (simp_all add: js_rem_def)

lemma render_ok:
  assumes "items lb \<noteq> []" and "0 \<le> idx lb" and "idx lb < int (length (items lb))"
  shows "render lb =
           Inr (lb\<lparr>img_src := (case srcLarge (items lb ! nat (idx lb)) of
                                    None \<Rightarrow> ''undefined'' | Some s \<Rightarrow> s),
                    img_alt := or_else (alt (items lb ! nat (idx lb))) '''',
                    prev_display := (if length (items lb) > 1 then ''block'' else ''none''),
                    next_display := (if length (items lb) > 1 then ''block'' else ''none'')\<rparr>)"
  using assms by (simp add: render_def Let_def)

lemma render_keeps:
  assumes "render lb = Inr lb'"
  shows "items lb' = items lb \<and> idx lb' = idx lb"
  using assms by (auto simp: render_def Let_def split: if_splits)

lemma render_in_range: "idx_in_range lb \<Longrightarrow> \<exists>lb'. render lb = Inr lb'"
  by (auto simp: idx_in_range_def render_def Let_def)

lemma clamp_in_range:
  "its \<noteq> [] \<Longrightarrow> 0 \<le> max 0 (min start (int (length its) - 1))
     \<and> max 0 (min start (int (length its) - 1)) < int (length its)"
  by (cases its) auto

lemma open_lb_ok:
  "\<exists>lb'. open_lb newItems startIndex lb = Inr lb' \<and> idx_in_range lb'
     \<and> items lb' = or_empty newItems
     \<and> idx lb' = max 0 (min (case startIndex of None \<Rightarrow> 0 | Some i \<Rightarrow> i)
                               (int (length (or_empty newItems)) - 1))"
proof (cases "or_empty newItems = []")
  case True
  then show ?thesis by (simp add: open_lb_def Let_def render_def idx_in_range_def)
next
  case False
  from clamp_in_range [OF False] show ?thesis
    using False by (simp add: open_lb_def Let_def render_def idx_in_range_def)
qed

lemma next_lb_ok:
  assumes "items lb \<noteq> []" and "0 \<le> idx lb" and "idx lb < int (length (items lb))"
  shows "next_lb lb = render (lb\<lparr>idx := (idx lb + 1) mod int (length (items lb))\<rparr>)"
  using assms by (simp add: next_lb_def js_rem_mod)

lemma prev_ok:
  assumes "items lb \<noteq> []" and "0 \<le> idx lb" and "idx lb < int (length (items lb))"
  shows "prev lb =
           render (lb\<lparr>idx := (idx lb - 1 + int (length (items lb))) mod int (length (items lb))\<rparr>)"
  using assms by (simp add: prev_def js_rem_mod)

lemma prev_in_range:
  assumes "idx_in_range lb"
  shows "\<exists>lb'. prev lb = Inr lb' \<and> idx_in_range lb'"
proof (cases "items lb = []")
  case True
  with assms show ?thesis by (simp add: prev_def)
next
  case False
  with assms have r: "0 \<le> idx lb" "idx lb < int (length (items lb))"
    by (simp_all add: idx_in_range_def)
  let ?n = "int (length (items lb))"
  let ?lb = "lb\<lparr>idx := (idx lb - 1 + ?n) mod ?n\<rparr>"
  have pos: "0 < ?n" using False by simp
  have "0 \<le> idx ?lb" "idx ?lb < int (length (items ?lb))" using pos by simp_all
  then have "idx_in_range ?lb" by (simp add: idx_in_range_def)
  then obtain lb' where lb': "render ?lb = Inr lb'" using render_in_range by blast
  with render_keeps [OF lb'] \<open>idx_in_range ?lb\<close> have "idx_in_range lb'"
    by (simp add: idx_in_range_def)
  with lb' prev_ok [OF False r] show ?thesis by simp
qed

lemma next_in_range:
  assumes "idx_in_range lb"
  shows "\<exists>lb'. next_lb lb = Inr lb' \<and> idx_in_range lb'"
proof (cases "items lb = []")
  case True
  with assms show ?thesis by (simp add: next_lb_def)
next
  case False
  with assms have r: "0 \<le> idx lb" "idx lb < int (length (items lb))"
    by (simp_all add: idx_in_range_def)
  let ?n = "int (length (items lb))"
  let ?lb = "lb\<lparr>idx := (idx lb + 1) mod ?n\<rparr>"
  have pos: "0 < ?n" using False by simp
  have "0 \<le> idx ?lb" "idx ?lb < int (length (items ?lb))" using pos by simp_all
  then have "idx_in_range ?lb" by (simp add: idx_in_range_def)
  then obtain lb' where lb': "render ?lb = Inr lb'" using render_in_range by blast
  with render_keeps [OF lb'] \<open>idx_in_range ?lb\<close> have "idx_in_range lb'"
    by (simp add: idx_in_range_def)
  with lb' next_lb_ok [OF False r] show ?thesis by simp
qed

lemma close_in_range: "idx_in_range lb \<Longrightarrow> idx_in_range (close lb)"
  by (simp add: idx_in_range_def close_def)

lemma reachable_in_range: "reachable lb \<Longrightarrow> idx_in_range lb"
proof (induction rule: reachable.induct)
  case (created elements)
  show ?case by (simp add: createLightbox_def idx_in_range_def)
next
  case (opened lb newItems startIndex lb')
  with open_lb_ok [of newItems startIndex lb] show ?case by auto
next
  case (closed lb)
  then show ?case by (simp add: close_in_range)
next
  case (went_prev lb lb')
  with prev_in_range [of lb] show ?case by auto
next
  case (went_next lb lb')
  with next_in_range [of lb] show ?case by auto
next
  case (key lb k lb')
  show ?case
  proof (cases "overlay_open lb")
    case False
    with key show ?thesis by (simp add: keydown_def)
  next
    case True
    with key prev_in_range [of lb] next_in_range [of lb] close_in_range [of lb]
    show ?thesis by (auto simp: keydown_def split: if_splits)
  qed
qed

lemma sample_open:
  "open_lb (Some sample_images) (Some 7) (createLightbox sample_elements) = Inr sample_opened"
  by (simp add: open_lb_def render_def or_empty_def or_else_def createLightbox_def
      sample_images_def sample_elements_def sample_opened_def Let_def)

lemma sample_reachable: "reachable sample_opened"
  using reachable.created [of sample_elements] sample_open by (rule reachable.opened)

text \<open>
  Claim C2. In every state the lightbox can reach with a list that is not empty, \<^verbatim>\<open>next\<close>
  returns normally, moves the index to the next position modulo the length of the list and shows
  the image at the new index. From the last image the new index is 0 and the first image is
  shown.
\<close>

theorem next_advances_and_wraps:
  assumes "reachable lb" and "items lb \<noteq> []"
  shows "\<exists>lb'. next_lb lb = Inr lb'
           \<and> items lb' = items lb
           \<and> idx lb' = (idx lb + 1) mod int (length (items lb))
           \<and> img_src lb' = (case srcLarge (items lb ! nat (idx lb')) of
                               None \<Rightarrow> ''undefined'' | Some s \<Rightarrow> s)
           \<and> img_alt lb' = or_else (alt (items lb ! nat (idx lb'))) ''''
           \<and> (idx lb = int (length (items lb)) - 1 \<longrightarrow>
                idx lb' = 0
                \<and> img_src lb' = (case srcLarge (hd (items lb)) of
                                   None \<Rightarrow> ''undefined'' | Some s \<Rightarrow> s))"
proof -
  let ?n = "int (length (items lb))"
  let ?lb = "lb\<lparr>idx := (idx lb + 1) mod ?n\<rparr>"
  from assms have r: "0 \<le> idx lb" "idx lb < ?n"
    using reachable_in_range [of lb] by (simp_all add: idx_in_range_def)
  have pos: "0 < ?n" using assms(2) by simp
  have ne: "items ?lb \<noteq> []" using assms(2) by simp
  have lo: "0 \<le> idx ?lb" using pos by simp
  have hi: "idx ?lb < int (length (items ?lb))" using pos by simp
  have step: "next_lb lb = render ?lb" using assms(2) r by (rule next_lb_ok)
  note shown = render_ok [OF ne lo hi]
  have last: "idx lb = ?n - 1 \<Longrightarrow> (idx lb + 1) mod ?n = 0" by simp
  have first: "items lb ! 0 = hd (items lb)" using assms(2) by (simp add: hd_conv_nth)
  show ?thesis
    unfolding step shown using last first by auto
qed

theorem next_advances_and_wraps_witness:
  "reachable sample_opened \<and> items sample_opened \<noteq> []
   \<and> idx sample_opened = int (length (items sample_opened)) - 1
   \<and> (\<exists>lb'. next_lb sample_opened = Inr lb' \<and> idx lb' = 0
           \<and> img_src lb' = ''/generated/hall/large/a.jpg'' \<and> img_alt lb' = ''Front'')"
proof -
  have ne: "items sample_opened \<noteq> []" by (simp add: sample_opened_def sample_images_def)
  have last: "idx sample_opened = int (length (items sample_opened)) - 1"
    by (simp add: sample_opened_def sample_images_def)
  from next_advances_and_wraps [OF sample_reachable ne] last
  obtain lb' where "next_lb sample_opened = Inr lb'" "idx lb' = 0"
    "img_src lb' = (case srcLarge (items sample_opened ! nat (idx lb')) of
                      None \<Rightarrow> ''undefined'' | Some s \<Rightarrow> s)"
    "img_alt lb' = or_else (alt (items sample_opened ! nat (idx lb'))) ''''"
    by auto
  then have "next_lb sample_opened = Inr lb' \<and> idx lb' = 0
      \<and> img_src lb' = ''/generated/hall/large/a.jpg'' \<and> img_alt lb' = ''Front''"
    by (simp add: sample_opened_def sample_images_def or_else_def)
  with sample_reachable ne last show ?thesis by blast
qed

text \<open>
  Claim C9. The index stays a position of the list. \<^verbatim>\<open>open\<close> returns normally for every
  list and every start index, and leaves the index clamped into the list: 0 for a negative start,
  the last position for a start past the end. From a state whose index is in range, \<^verbatim>\<open>prev\<close>
  and \<^verbatim>\<open>next\<close> return normally with the index in range and \<^verbatim>\<open>render\<close> raises nothing. On
  an empty list the three leave the state as it is. Every state the lightbox can reach has its
  index in range.
\<close>

theorem lightbox_index_invariant:
  "(\<exists>lb'. open_lb newItems startIndex lb0 = Inr lb' \<and> idx_in_range lb'
          \<and> items lb' = or_empty newItems
          \<and> idx lb' = max 0 (min (case startIndex of None \<Rightarrow> 0 | Some i \<Rightarrow> i)
                                    (int (length (or_empty newItems)) - 1)))
   \<and> (idx_in_range lb \<longrightarrow>
        (\<exists>lb'. prev lb = Inr lb' \<and> idx_in_range lb')
        \<and> (\<exists>lb'. next_lb lb = Inr lb' \<and> idx_in_range lb')
        \<and> (\<exists>lb'. render lb = Inr lb'))
   \<and> (items lb = [] \<longrightarrow> prev lb = Inr lb \<and> next_lb lb = Inr lb \<and> render lb = Inr lb)
   \<and> (reachable lb \<longrightarrow> idx_in_range lb)"
proof (intro conjI impI)
  show "\<exists>lb'. open_lb newItems startIndex lb0 = Inr lb' \<and> idx_in_range lb'
          \<and> items lb' = or_empty newItems
          \<and> idx lb' = max 0 (min (case startIndex of None \<Rightarrow> 0 | Some i \<Rightarrow> i)
                                    (int (length (or_empty newItems)) - 1))"
    by (rule open_lb_ok)
next
  assume "idx_in_range lb"
  then show "\<exists>lb'. prev lb = Inr lb' \<and> idx_in_range lb'" by (rule prev_in_range)
next
  assume "idx_in_range lb"
  then show "\<exists>lb'. next_lb lb = Inr lb' \<and> idx_in_range lb'" by (rule next_in_range)
next
  assume "idx_in_range lb"
  then show "\<exists>lb'. render lb = Inr lb'" by (rule render_in_range)
next
  assume "items lb = []"
  then show "prev lb = Inr lb" by (simp add: prev_def)
next
  assume "items lb = []"
  then show "next_lb lb = Inr lb" by (simp add: next_lb_def)
next
  assume "items lb = []"
  then show "render lb = Inr lb" by (simp add: render_def)
next
  assume "reachable lb"
  then show "idx_in_range lb" by (rule reachable_in_range)
qed

text \<open>
  On the sample: a start of 7 on three images is clamped to 2 and a start of \<open>- 3\<close> to 0; the
  opened lightbox is reachable and in range, its arrows and \<^verbatim>\<open>render\<close> return normally; a
  lightbox that was just created has no items, and the three leave it alone.
\<close>

theorem lightbox_index_invariant_witness:
  "(\<exists>lb'. open_lb (Some sample_images) (Some 7) (createLightbox sample_elements) = Inr lb'
          \<and> idx_in_range lb' \<and> idx lb' = 2)
   \<and> (\<exists>lb'. open_lb (Some sample_images) (Some (- 3)) (createLightbox sample_elements) = Inr lb'
          \<and> idx_in_range lb' \<and> idx lb' = 0)
   \<and> reachable sample_opened \<and> idx_in_range sample_opened
   \<and> (\<exists>lb'. prev sample_opened = Inr lb' \<and> idx_in_range lb')
   \<and> (\<exists>lb'. next_lb sample_opened = Inr lb' \<and> idx_in_range lb')
   \<and> (\<exists>lb'. render sample_opened = Inr lb')
   \<and> items (createLightbox sample_elements) = []
   \<and> prev (createLightbox sample_elements) = Inr (createLightbox sample_elements)
   \<and> next_lb (createLightbox sample_elements) = Inr (createLightbox sample_elements)
   \<and> render (createLightbox sample_elements) = Inr (createLightbox sample_elements)"
proof -
  have len: "int (length (or_empty (Some sample_images))) - 1 = 2"
    by (simp add: or_empty_def sample_images_def)
  have empty: "items (createLightbox sample_elements) = []"
    by (simp add: createLightbox_def)
  have a: "\<exists>lb'. open_lb (Some sample_images) (Some 7) (createLightbox sample_elements) = Inr lb'
          \<and> idx_in_range lb' \<and> idx lb' = 2"
    using lightbox_index_invariant
      [of "Some sample_images" "Some 7" "createLightbox sample_elements" sample_opened] len
    by auto
  have b: "\<exists>lb'. open_lb (Some sample_images) (Some (- 3)) (createLightbox sample_elements) = Inr lb'
          \<and> idx_in_range lb' \<and> idx lb' = 0"
    using lightbox_index_invariant
      [of "Some sample_images" "Some (- 3)" "createLightbox sample_elements" sample_opened] len
    by auto
  have c: "idx_in_range sample_opened"
    using lightbox_index_invariant [of None None sample_elements sample_opened] sample_reachable
    by blast
  have d: "(\<exists>lb'. prev sample_opened = Inr lb' \<and> idx_in_range lb')
       \<and> (\<exists>lb'. next_lb sample_opened = Inr lb' \<and> idx_in_range lb')
       \<and> (\<exists>lb'. render sample_opened = Inr lb')"
    using lightbox_index_invariant [of None None sample_elements sample_opened] c by blast
  have e: "prev (createLightbox sample_elements) = Inr (createLightbox sample_elements)
       \<and> next_lb (createLightbox sample_elements) = Inr (createLightbox sample_elements)
       \<and> render (createLightbox sample_elements) = Inr (createLightbox sample_elements)"
    using lightbox_index_invariant [of None None sample_elements "createLightbox sample_elements"]
      empty
    by blast
  from a b c d e empty sample_reachable show ?thesis by blast
qed

section \<open>Properties of the project page\<close>

lemma hasPhaseContent_iff: "hasPhaseContent ph = (0 < media_count ph)"
  by (cases ph) (auto simp: hasPhaseContent_def media_count_def Let_def)

lemma renderPhase_None_iff: "(renderPhase base k t ph = None) = (media_count ph = 0)"
  by (cases ph) (auto simp: renderPhase_def media_count_def Let_def)

lemma renderPhase_phase: "renderPhase base k t ph = Some s \<Longrightarrow> sec_phase s = k"
  by (cases ph) (auto simp: renderPhase_def Let_def split: if_splits)

lemma switchTab_tab_keys: "tab_keys (switchTab t d) = tab_keys d"
  by (simp add: tab_keys_def switchTab_def setActive_def showOverview_def showMediaAll_def
      showOnlyPhase_def Let_def comp_def)

lemma hide_where_phase:
  "(case hide_where f n of NoMedia h \<Rightarrow> [] | Section s \<Rightarrow> [sec_phase s])
     = (case n of NoMedia h \<Rightarrow> [] | Section s \<Rightarrow> [sec_phase s])"
  by (cases n) (simp_all add: hide_where_def)

lemma switchTab_section_phases: "section_phases (switchTab t d) = section_phases d"
  by (simp add: section_phases_def switchTab_def setActive_def showOverview_def showMediaAll_def
      showOnlyPhase_def Let_def comp_def hide_where_phase)

lemma switchTab_info_list: "info_list (switchTab t d) = info_list d"
  by (simp add: switchTab_def setActive_def showOverview_def showMediaAll_def
      showOnlyPhase_def Let_def)

lemma build_tab_keys: "tab_keys (build_project base p a d) = map fst (tabList p)"
  by (simp add: tab_keys_def build_project_def comp_def case_prod_unfold)

lemma tabList_keys:
  "map fst (tabList p) =
     (if hasOverviewContent p then [''overview''] else [])
     @ (if \<exists>(k, sel) \<in> set phase_table. 0 < media_count (phase_of sel p) then [''all''] else [])
     @ map fst (filter (\<lambda>(k, sel). 0 < media_count (phase_of sel p)) phase_table)"
  by (simp add: tabList_def phase_table_def hasPhaseContent_iff Let_def)

lemma sections_phases:
  "map sec_phase (sections base p)
     = map fst (filter (\<lambda>(k, sel). 0 < media_count (phase_of sel p)) phase_table)"
proof -
  have one: "map sec_phase (List.map_filter (\<lambda>s. s) [renderPhase base k t ph])
                 = (if 0 < media_count ph then [k] else [])" for k t ph
  proof (cases "renderPhase base k t ph")
    case None
    then have "media_count ph = 0" by (simp add: renderPhase_None_iff)
    with None show ?thesis by (simp add: List.map_filter_def)
  next
    case (Some s)
    then have "media_count ph \<noteq> 0" using renderPhase_None_iff [of base k t ph] by simp
    moreover have "sec_phase s = k" using Some by (rule renderPhase_phase)
    ultimately show ?thesis using Some by (simp add: List.map_filter_def)
  qed
  have split: "List.map_filter (\<lambda>s::gallery_section option. s) [a, b, c, d]
      = List.map_filter (\<lambda>s. s) [a] @ List.map_filter (\<lambda>s. s) [b]
        @ List.map_filter (\<lambda>s. s) [c] @ List.map_filter (\<lambda>s. s) [d]" for a b c d
    by (simp add: List.map_filter_def)
  show ?thesis
    unfolding sections_def split map_append one
    by (simp add: phase_table_def)
qed

lemma build_section_phases:
  "section_phases (build_project base p a d) = map sec_phase (sections base p)"
  by (simp add: section_phases_def build_project_def comp_def)

lemma renderProject_found:
  assumes "projectMount pg = Some d"
    and "fetch e (withBase (BASE_PATH (hostname e) (pathname e)) (gallery_url_attr pg))
           = Response True (Some data)"
    and "find (\<lambda>x. Some (slug x) = project_slug_attr pg) (or_empty (projects data)) = Some p"
  shows "renderProject e pg =
           Inr (pg\<lparr>projectMount :=
                  Some (switchTab (defaultTab (tabList p) (tab_param e))
                          (build_project (BASE_PATH (hostname e) (pathname e)) p
                             (project_slug_attr pg) d))\<rparr>)"
  using assms by (simp add: renderProject_def Let_def)

lemma trim_empty: "trim '''' = ''''"
proof -
  have "ws_len [] = 0" by (simp add: ws_len_def startsWith_def white_space_def)
  then have a: "trimStart [] = []" by (subst trimStart.simps) simp
  have "ws_len_end [] = 0" by (simp add: ws_len_end_def startsWith_def white_space_def)
  then have b: "trimEnd [] = []" by (subst trimEnd.simps) simp
  from a b show ?thesis by (simp add: trim_def)
qed

lemma safeText_nonempty: "(safeText v \<noteq> '''') = (\<exists>s. v = Some s \<and> trim s \<noteq> '''')"
  by (cases v) (simp_all add: safeText_def trim_empty)

lemma fields_table: "fields_of p = map (\<lambda>(k, f). (k, safeText (f p))) field_table"
  by (simp add: fields_of_def field_table_def)

lemma info_rows_member:
  assumes "(k, f) \<in> set field_table"
  shows "((k, v) \<in> set (info_rows p)) = (v = safeText (f p) \<and> v \<noteq> '''')"
proof -
  have d: "distinct (map fst field_table)" by (simp add: field_table_def)
  have not_info: "k \<noteq> ''Info''" using assms by (auto simp: field_table_def)
  have rows: "((k, v) \<in> set (filter (\<lambda>(k, v). v \<noteq> '''') (fields_of p)))
                = (v = safeText (f p) \<and> v \<noteq> '''')"
  proof
    assume "(k, v) \<in> set (filter (\<lambda>(k, v). v \<noteq> '''') (fields_of p))"
    then obtain g where g: "(k, g) \<in> set field_table" "v = safeText (g p)" "v \<noteq> ''''"
      by (auto simp: fields_table)
    from d g(1) assms have "g = f" by (rule eq_key_imp_eq_value)
    with g show "v = safeText (f p) \<and> v \<noteq> ''''" by simp
  next
    assume "v = safeText (f p) \<and> v \<noteq> ''''"
    with assms show "(k, v) \<in> set (filter (\<lambda>(k, v). v \<noteq> '''') (fields_of p))"
      by (force simp: fields_table)
  qed
  show ?thesis
  proof (cases "filter (\<lambda>(k, v). v \<noteq> '''') (fields_of p) = []")
    case True
    with rows have "\<not> (v = safeText (f p) \<and> v \<noteq> '''')" by simp
    moreover have "info_rows p = [(''Info'', ''No details provided yet.'')]"
      using True by (simp add: info_rows_def buildInfoItem_def)
    ultimately show ?thesis using not_info by simp
  next
    case False
    then have "info_rows p = filter (\<lambda>(k, v). v \<noteq> '''') (fields_of p)"
      by (simp add: info_rows_def buildInfoItem_def Let_def case_prod_unfold)
    with rows show ?thesis by simp
  qed
qed

lemma build_info_list: "info_list (build_project base p a d) = info_rows p"
  by (simp add: build_project_def)

lemma distinct_filter_key:
  assumes "distinct (map fst xs)" and "(k, v) \<in> set xs"
  shows "(k \<in> set (map fst (filter P xs))) = P (k, v)"
proof
  assume "k \<in> set (map fst (filter P xs))"
  then obtain w where w: "(k, w) \<in> set xs" "P (k, w)" by auto
  from assms(1) w(1) assms(2) have "w = v" by (rule eq_key_imp_eq_value)
  with w(2) show "P (k, v)" by simp
next
  assume "P (k, v)"
  with assms(2) have "(k, v) \<in> set (filter P xs)" by simp
  then have "fst (k, v) \<in> fst ` set (filter P xs)" by (rule imageI)
  then show "k \<in> set (map fst (filter P xs))" by simp
qed

lemma phase_table_distinct: "distinct (map fst phase_table)"
  by (simp add: phase_table_def)

lemma phase_key_not_general:
  assumes "(k, sel) \<in> set phase_table"
  shows "k \<noteq> ''overview''" and "k \<noteq> ''all''"
  using assms by (auto simp: phase_table_def)

lemma phase_tab_member:
  assumes "(k, sel) \<in> set phase_table"
  shows "(k \<in> set (map fst (tabList p))) = (0 < media_count (phase_of sel p))"
proof -
  let ?P = "\<lambda>(k, sel). 0 < media_count (phase_of sel p)"
  have "(k \<in> set (map fst (tabList p))) = (k \<in> set (map fst (filter ?P phase_table)))"
    unfolding tabList_keys using phase_key_not_general [OF assms] by simp
  also have "\<dots> = ?P (k, sel)" using phase_table_distinct assms by (rule distinct_filter_key)
  finally show ?thesis by simp
qed

lemma phase_section_member:
  assumes "(k, sel) \<in> set phase_table"
  shows "(k \<in> set (map sec_phase (sections base p))) = (0 < media_count (phase_of sel p))"
proof -
  let ?P = "\<lambda>(k, sel). 0 < media_count (phase_of sel p)"
  have "(k \<in> set (map sec_phase (sections base p))) = ?P (k, sel)"
    unfolding sections_phases using phase_table_distinct assms by (rule distinct_filter_key)
  then show ?thesis by simp
qed

lemma no_media_tabs:
  assumes "\<forall>k sel. (k, sel) \<in> set phase_table \<longrightarrow> media_count (phase_of sel p) = 0"
  shows "set (map fst (tabList p)) \<subseteq> {''overview''}" and "map sec_phase (sections base p) = []"
proof -
  from assms have none: "filter (\<lambda>(k, sel). 0 < media_count (phase_of sel p)) phase_table = []"
    by (auto simp: filter_empty_conv)
  from assms have no: "\<not> (\<exists>(k, sel) \<in> set phase_table. 0 < media_count (phase_of sel p))"
    by auto
  show "set (map fst (tabList p)) \<subseteq> {''overview''}"
    unfolding tabList_keys none using no by auto
  show "map sec_phase (sections base p) = []"
    unfolding sections_phases none by simp
qed

lemma defaultTab_chosen:
  assumes "''media'' \<notin> set (map fst tbs)"
  shows "defaultTab tbs param = chosen_tab (map fst tbs) (toLowerCase (or_else param ''''))"
proof -
  define want where "want = toLowerCase (or_else param '''')"
  define keys where "keys = map fst tbs"
  have first: "tbs \<noteq> [] \<Longrightarrow> fst (hd tbs) = hd keys \<and> hd keys \<in> set keys"
    by (cases tbs) (simp_all add: keys_def)
  have empty: "tbs = [] \<Longrightarrow> keys = []" by (simp add: keys_def)
  have nonempty: "tbs \<noteq> [] \<Longrightarrow> keys \<noteq> []" by (simp add: keys_def)
  have media: "''media'' \<notin> set keys" using assms by (simp add: keys_def)
  have unfold: "defaultTab tbs param =
      (let chosen = (if want = ''overview'' \<and> ''overview'' \<in> set keys then ''overview''
                     else if (want = ''all'' \<or> want = ''media'') \<and> ''all'' \<in> set keys then ''all''
                     else if want \<in> set keys then want
                     else if tbs \<noteq> [] then fst (hd tbs) else ''overview'')
       in if chosen \<notin> set keys \<and> ''all'' \<in> set keys then ''all'' else chosen)"
    unfolding defaultTab_def want_def keys_def Let_def by simp
  show ?thesis
  proof (cases "want \<in> set keys")
    case True
    then have "want \<noteq> ''media''" using media by auto
    moreover have "tbs \<noteq> []" using True by (auto simp: keys_def)
    ultimately show ?thesis using True
      unfolding unfold chosen_tab_def Let_def want_def [symmetric] keys_def [symmetric]
      by auto
  next
    case False
    show ?thesis
    proof (cases "tbs = []")
      case True
      with False empty show ?thesis
        unfolding unfold chosen_tab_def Let_def want_def [symmetric] keys_def [symmetric]
        by simp
    next
      case nonempty_tbs: False
      from first [OF nonempty_tbs] nonempty [OF nonempty_tbs] nonempty_tbs False show ?thesis
        unfolding unfold chosen_tab_def Let_def want_def [symmetric] keys_def [symmetric]
        by auto
    qed
  qed
qed

lemma tabList_no_media_key: "''media'' \<notin> set (map fst (tabList p))"
proof -
  let ?P = "\<lambda>(k, sel). 0 < media_count (phase_of sel p)"
  have "set (map fst (filter ?P phase_table)) \<subseteq> set (map fst phase_table)" by auto
  moreover have "''media'' \<notin> set (map fst phase_table)" by (simp add: phase_table_def)
  ultimately have "''media'' \<notin> set (map fst (filter ?P phase_table))" by blast
  then show ?thesis unfolding tabList_keys by simp
qed

section \<open>Tabs, overview rows and messages of the project page\<close>

text \<open>
  The sample site, evaluated: its base path, the answer to the request for the manifest, and the
  projects that the pages of the hall and of the shed find by their slug.
\<close>

lemma sample_base: "BASE_PATH (hostname sample_env) (pathname sample_env) = ''/site''"
  by code_simp

lemma sample_fetch:
  "fetch sample_env (withBase (BASE_PATH (hostname sample_env) (pathname sample_env))
                       (Some ''/generated/gallery.json''))
     = Response True (Some sample_manifest)"
  by code_simp

lemma sample_find_hall:
  "find (\<lambda>x. Some (slug x) = Some ''hall'') (or_empty (projects sample_manifest)) = Some hall_project"
  by code_simp

lemma sample_find_shed:
  "find (\<lambda>x. Some (slug x) = Some ''shed'') (or_empty (projects sample_manifest)) = Some shed_project"
  by code_simp

text \<open>
  Claim C1. On the page of a project of the manifest, \<^verbatim>\<open>renderProject\<close> returns normally,
  and for each of the four phases the page has a tab button with the key of the phase exactly
  when the phase contains at least one image or video; the same holds for its media section, and
  \<^verbatim>\<open>renderPhase\<close> returns \<^verbatim>\<open>null\<close> exactly on a phase with no media. When no phase of the
  project has media, the page has no tab but, at most, the overview, and no media section.
\<close>

theorem phase_tab_iff_media:
  assumes "projectMount pg = Some d"
    and "fetch e (withBase (BASE_PATH (hostname e) (pathname e)) (gallery_url_attr pg))
           = Response True (Some data)"
    and "find (\<lambda>x. Some (slug x) = project_slug_attr pg) (or_empty (projects data)) = Some p"
  shows "\<exists>d'. renderProject e pg = Inr (pg\<lparr>projectMount := Some d'\<rparr>)
          \<and> (\<forall>k sel. (k, sel) \<in> set phase_table \<longrightarrow>
                (k \<in> set (tab_keys d')) = (0 < media_count (phase_of sel p))
                \<and> (k \<in> set (section_phases d')) = (0 < media_count (phase_of sel p))
                \<and> (\<forall>base t. (renderPhase base k t (phase_of sel p) = None)
                               = (media_count (phase_of sel p) = 0)))
          \<and> ((\<forall>k sel. (k, sel) \<in> set phase_table \<longrightarrow> media_count (phase_of sel p) = 0) \<longrightarrow>
                set (tab_keys d') \<subseteq> {''overview''} \<and> section_phases d' = [])"
proof -
  let ?base = "BASE_PATH (hostname e) (pathname e)"
  let ?b = "build_project ?base p (project_slug_attr pg) d"
  let ?d = "switchTab (defaultTab (tabList p) (tab_param e)) ?b"
  have r: "renderProject e pg = Inr (pg\<lparr>projectMount := Some ?d\<rparr>)"
    using assms by (rule renderProject_found)
  have keys: "tab_keys ?d = map fst (tabList p)"
    by (simp add: switchTab_tab_keys build_tab_keys)
  have secs: "section_phases ?d = map sec_phase (sections ?base p)"
    by (simp add: switchTab_section_phases build_section_phases)
  have each: "(k \<in> set (tab_keys ?d)) = (0 < media_count (phase_of sel p))
      \<and> (k \<in> set (section_phases ?d)) = (0 < media_count (phase_of sel p))
      \<and> (\<forall>base t. (renderPhase base k t (phase_of sel p) = None)
                     = (media_count (phase_of sel p) = 0))"
    if "(k, sel) \<in> set phase_table" for k sel
    unfolding keys secs
    using phase_tab_member [OF that] phase_section_member [OF that] renderPhase_None_iff
    by simp
  have none: "set (tab_keys ?d) \<subseteq> {''overview''} \<and> section_phases ?d = []"
    if "\<forall>k sel. (k, sel) \<in> set phase_table \<longrightarrow> media_count (phase_of sel p) = 0"
    unfolding keys secs using no_media_tabs [OF that] by simp
  from r each none show ?thesis by blast
qed

theorem phase_tab_iff_media_witness:
  "projectMount hall_page = Some sample_dom
   \<and> find (\<lambda>x. Some (slug x) = project_slug_attr hall_page) (or_empty (projects sample_manifest))
       = Some hall_project
   \<and> media_count (phase_of before hall_project) = 3
   \<and> media_count (phase_of during hall_project) = 0
   \<and> (\<exists>d'. renderProject sample_env hall_page = Inr (hall_page\<lparr>projectMount := Some d'\<rparr>)
          \<and> ''before'' \<in> set (tab_keys d') \<and> ''before'' \<in> set (section_phases d')
          \<and> ''during'' \<notin> set (tab_keys d') \<and> ''during'' \<notin> set (section_phases d'))
   \<and> renderPhase ''/site'' ''during'' ''During'' (phase_of during hall_project) = None
   \<and> find (\<lambda>x. Some (slug x) = project_slug_attr shed_page) (or_empty (projects sample_manifest))
       = Some shed_project
   \<and> (\<exists>d'. renderProject sample_env shed_page = Inr (shed_page\<lparr>projectMount := Some d'\<rparr>)
          \<and> set (tab_keys d') \<subseteq> {''overview''} \<and> section_phases d' = [])"
proof -
  have m: "projectMount hall_page = Some sample_dom" "projectMount shed_page = Some sample_dom"
    by (simp_all add: hall_page_def shed_page_def)
  have f: "fetch sample_env (withBase (BASE_PATH (hostname sample_env) (pathname sample_env))
                              (gallery_url_attr hall_page)) = Response True (Some sample_manifest)"
    "fetch sample_env (withBase (BASE_PATH (hostname sample_env) (pathname sample_env))
                              (gallery_url_attr shed_page)) = Response True (Some sample_manifest)"
    using sample_fetch by (simp_all add: hall_page_def shed_page_def)
  have h: "find (\<lambda>x. Some (slug x) = project_slug_attr hall_page)
             (or_empty (projects sample_manifest)) = Some hall_project"
    using sample_find_hall by (simp add: hall_page_def)
  have s: "find (\<lambda>x. Some (slug x) = project_slug_attr shed_page)
             (or_empty (projects sample_manifest)) = Some shed_project"
    using sample_find_shed by (simp add: shed_page_def hall_page_def)
  have b: "(''before'', before) \<in> set phase_table" "(''during'', during) \<in> set phase_table"
    by (simp_all add: phase_table_def)
  have cb: "media_count (phase_of before hall_project) = 3"
    by (simp add: media_count_def phase_of_def hall_project_def or_empty_def sample_images_def)
  have cd: "media_count (phase_of during hall_project) = 0"
    by (simp add: media_count_def phase_of_def hall_project_def or_empty_def)
  have none: "\<forall>k sel. (k, sel) \<in> set phase_table \<longrightarrow> media_count (phase_of sel shed_project) = 0"
    by (simp add: media_count_def phase_of_def shed_project_def)
  from phase_tab_iff_media [OF m(1) f(1) h] obtain d1 where
    r1: "renderProject sample_env hall_page = Inr (hall_page\<lparr>projectMount := Some d1\<rparr>)"
    and each: "\<forall>k sel. (k, sel) \<in> set phase_table \<longrightarrow>
                (k \<in> set (tab_keys d1)) = (0 < media_count (phase_of sel hall_project))
                \<and> (k \<in> set (section_phases d1)) = (0 < media_count (phase_of sel hall_project))
                \<and> (\<forall>base t. (renderPhase base k t (phase_of sel hall_project) = None)
                               = (media_count (phase_of sel hall_project) = 0))"
    by (elim exE conjE)
  from each b(1) have e1: "(''before'' \<in> set (tab_keys d1)) = (0 < media_count (phase_of before hall_project))
                \<and> (''before'' \<in> set (section_phases d1)) = (0 < media_count (phase_of before hall_project))"
    by blast
  from each b(2) have e2: "(''during'' \<in> set (tab_keys d1)) = (0 < media_count (phase_of during hall_project))
                \<and> (''during'' \<in> set (section_phases d1)) = (0 < media_count (phase_of during hall_project))
                \<and> (\<forall>base t. (renderPhase base ''during'' t (phase_of during hall_project) = None)
                               = (media_count (phase_of during hall_project) = 0))"
    by blast
  from e2 cd have rp: "renderPhase ''/site'' ''during'' ''During'' (phase_of during hall_project) = None"
    by blast
  from e1 e2 cb cd have in_out: "''before'' \<in> set (tab_keys d1) \<and> ''before'' \<in> set (section_phases d1)
          \<and> ''during'' \<notin> set (tab_keys d1) \<and> ''during'' \<notin> set (section_phases d1)"
    by simp
  from r1 in_out
  have hall: "\<exists>d'. renderProject sample_env hall_page = Inr (hall_page\<lparr>projectMount := Some d'\<rparr>)
          \<and> ''before'' \<in> set (tab_keys d') \<and> ''before'' \<in> set (section_phases d')
          \<and> ''during'' \<notin> set (tab_keys d') \<and> ''during'' \<notin> set (section_phases d')"
    by (intro exI [of _ d1] conjI) simp_all
  from phase_tab_iff_media [OF m(2) f(2) s] obtain d2 where
    r2: "renderProject sample_env shed_page = Inr (shed_page\<lparr>projectMount := Some d2\<rparr>)"
    and all_none: "(\<forall>k sel. (k, sel) \<in> set phase_table \<longrightarrow> media_count (phase_of sel shed_project) = 0) \<longrightarrow>
                set (tab_keys d2) \<subseteq> {''overview''} \<and> section_phases d2 = []"
    by (elim exE conjE)
  from all_none none have "set (tab_keys d2) \<subseteq> {''overview''} \<and> section_phases d2 = []"
    by (rule mp)
  with r2
  have shed: "\<exists>d'. renderProject sample_env shed_page = Inr (shed_page\<lparr>projectMount := Some d'\<rparr>)
          \<and> set (tab_keys d') \<subseteq> {''overview''} \<and> section_phases d' = []"
    by (intro exI [of _ d2] conjI) simp_all
  show ?thesis
    by (intro conjI) (fact m(1) h cb cd hall rp s shed)+
qed

text \<open>
  Claim C7. On the page of a project of the manifest, \<^verbatim>\<open>renderProject\<close> returns normally,
  and for each of the nine metadata fields the info list has a row with the label of the field
  exactly when the field is present and not empty after trimming; the value of the row is the
  trimmed text. A field that is missing gives no row and no error.
\<close>

theorem overview_row_iff_nonempty:
  assumes "projectMount pg = Some d"
    and "fetch e (withBase (BASE_PATH (hostname e) (pathname e)) (gallery_url_attr pg))
           = Response True (Some data)"
    and "find (\<lambda>x. Some (slug x) = project_slug_attr pg) (or_empty (projects data)) = Some p"
  shows "\<exists>d'. renderProject e pg = Inr (pg\<lparr>projectMount := Some d'\<rparr>)
          \<and> (\<forall>k f. (k, f) \<in> set field_table \<longrightarrow>
                ((\<exists>v. (k, v) \<in> set (info_list d')) = (\<exists>s. f p = Some s \<and> trim s \<noteq> ''''))
                \<and> (\<forall>v. (k, v) \<in> set (info_list d') \<longrightarrow> v = safeText (f p))
                \<and> (f p = None \<longrightarrow> (\<forall>v. (k, v) \<notin> set (info_list d'))))"
proof -
  let ?base = "BASE_PATH (hostname e) (pathname e)"
  let ?d = "switchTab (defaultTab (tabList p) (tab_param e))
              (build_project ?base p (project_slug_attr pg) d)"
  have r: "renderProject e pg = Inr (pg\<lparr>projectMount := Some ?d\<rparr>)"
    using assms by (rule renderProject_found)
  have rows: "info_list ?d = info_rows p"
    by (simp add: switchTab_info_list build_info_list)
  have each: "((\<exists>v. (k, v) \<in> set (info_list ?d)) = (\<exists>s. f p = Some s \<and> trim s \<noteq> ''''))
      \<and> (\<forall>v. (k, v) \<in> set (info_list ?d) \<longrightarrow> v = safeText (f p))
      \<and> (f p = None \<longrightarrow> (\<forall>v. (k, v) \<notin> set (info_list ?d)))"
    if "(k, f) \<in> set field_table" for k f
  proof -
    have mem: "((k, v) \<in> set (info_list ?d)) = (v = safeText (f p) \<and> v \<noteq> '''')" for v
      unfolding rows using that by (rule info_rows_member)
    have "(\<exists>v. (k, v) \<in> set (info_list ?d)) = (safeText (f p) \<noteq> '''')"
      unfolding mem by blast
    then have a: "(\<exists>v. (k, v) \<in> set (info_list ?d)) = (\<exists>s. f p = Some s \<and> trim s \<noteq> '''')"
      unfolding safeText_nonempty .
    have b: "v = safeText (f p)" if "(k, v) \<in> set (info_list ?d)" for v
      using that unfolding mem by blast
    have c: "\<forall>v. (k, v) \<notin> set (info_list ?d)" if "f p = None"
      using that unfolding mem by (simp add: safeText_def trim_empty)
    from a b c show ?thesis by blast
  qed
  from r each show ?thesis by blast
qed

theorem overview_row_iff_nonempty_witness:
  "location hall_project = Some '' Darwin '' \<and> trim '' Darwin '' = ''Darwin''
   \<and> notes_field hall_project = Some ''   '' \<and> trim ''   '' = ''''
   \<and> date hall_project = None
   \<and> (\<exists>d'. renderProject sample_env hall_page = Inr (hall_page\<lparr>projectMount := Some d'\<rparr>)
          \<and> (\<exists>v. (''Location'', v) \<in> set (info_list d'))
          \<and> (\<forall>v. (''Location'', v) \<in> set (info_list d') \<longrightarrow> v = ''Darwin'')
          \<and> (\<forall>v. (''Notes'', v) \<notin> set (info_list d'))
          \<and> (\<forall>v. (''Date'', v) \<notin> set (info_list d')))"
proof -
  have m: "projectMount hall_page = Some sample_dom" by (simp add: hall_page_def)
  have f: "fetch sample_env (withBase (BASE_PATH (hostname sample_env) (pathname sample_env))
                              (gallery_url_attr hall_page)) = Response True (Some sample_manifest)"
    using sample_fetch by (simp add: hall_page_def)
  have h: "find (\<lambda>x. Some (slug x) = project_slug_attr hall_page)
             (or_empty (projects sample_manifest)) = Some hall_project"
    using sample_find_hall by (simp add: hall_page_def)
  have t: "(''Location'', location) \<in> set field_table" "(''Notes'', notes_field) \<in> set field_table"
    "(''Date'', date) \<in> set field_table"
    by (simp_all add: field_table_def)
  have l: "location hall_project = Some '' Darwin ''" by (simp add: hall_project_def)
  have n: "notes_field hall_project = Some ''   ''" by (simp add: hall_project_def)
  have dt: "date hall_project = None" by (simp add: hall_project_def)
  have tl: "trim '' Darwin '' = ''Darwin''" by code_simp
  have tn: "trim ''   '' = ''''" by code_simp
  from overview_row_iff_nonempty [OF m f h] obtain d1 where
    r1: "renderProject sample_env hall_page = Inr (hall_page\<lparr>projectMount := Some d1\<rparr>)"
    and each: "\<forall>k f. (k, f) \<in> set field_table \<longrightarrow>
                ((\<exists>v. (k, v) \<in> set (info_list d1)) = (\<exists>s. f hall_project = Some s \<and> trim s \<noteq> ''''))
                \<and> (\<forall>v. (k, v) \<in> set (info_list d1) \<longrightarrow> v = safeText (f hall_project))
                \<and> (f hall_project = None \<longrightarrow> (\<forall>v. (k, v) \<notin> set (info_list d1)))"
    by (elim exE conjE)
  from each t(1) have
    "((\<exists>v. (''Location'', v) \<in> set (info_list d1)) = (\<exists>s. location hall_project = Some s \<and> trim s \<noteq> ''''))
     \<and> (\<forall>v. (''Location'', v) \<in> set (info_list d1) \<longrightarrow> v = safeText (location hall_project))"
    by blast
  then have loc: "(\<exists>v. (''Location'', v) \<in> set (info_list d1))
     \<and> (\<forall>v. (''Location'', v) \<in> set (info_list d1) \<longrightarrow> v = ''Darwin'')"
    unfolding l using tl by (simp add: safeText_def)
  from each t(2) have
    "(\<exists>v. (''Notes'', v) \<in> set (info_list d1)) = (\<exists>s. notes_field hall_project = Some s \<and> trim s \<noteq> '''')"
    by blast
  then have nt: "\<forall>v. (''Notes'', v) \<notin> set (info_list d1)"
    unfolding n using tn by simp
  from each t(3) dt have da: "\<forall>v. (''Date'', v) \<notin> set (info_list d1)"
    by blast
  from r1 loc nt da
  have "\<exists>d'. renderProject sample_env hall_page = Inr (hall_page\<lparr>projectMount := Some d'\<rparr>)
          \<and> (\<exists>v. (''Location'', v) \<in> set (info_list d'))
          \<and> (\<forall>v. (''Location'', v) \<in> set (info_list d') \<longrightarrow> v = ''Darwin'')
          \<and> (\<forall>v. (''Notes'', v) \<notin> set (info_list d'))
          \<and> (\<forall>v. (''Date'', v) \<notin> set (info_list d'))"
    by (intro exI [of _ d1] conjI) simp_all
  with l tl n tn dt show ?thesis by simp
qed

text \<open>
  Claim C4, as the specification states it, fails on the page of the hall asked for the tab
  \<^verbatim>\<open>Media\<close>: no tab has the key \<^verbatim>\<open>media\<close> and the first tab is the overview, but
  the page starts on the tab of all media. It fails on the page of the shed too, which has no
  tab: \<^verbatim>\<open>switchTab\<close> is called with \<^verbatim>\<open>overview\<close>, not with \<^verbatim>\<open>all\<close>.
\<close>

theorem initial_tab_counterexample:
  "map fst (tabList hall_project) = [''overview'', ''all'', ''before'']
   \<and> toLowerCase (or_else (tab_param sample_env) '''') = ''media''
   \<and> claimed_tab (map fst (tabList hall_project)) (toLowerCase (or_else (tab_param sample_env) ''''))
       = ''overview''
   \<and> defaultTab (tabList hall_project) (tab_param sample_env) = ''all''
   \<and> renderProject sample_env hall_page
       = Inr (hall_page\<lparr>projectMount :=
                Some (switchTab ''all'' (build_project ''/site'' hall_project (Some ''hall'') sample_dom))\<rparr>)
   \<and> overview_hidden (switchTab ''all'' (build_project ''/site'' hall_project (Some ''hall'') sample_dom))
       = Some True
   \<and> overview_hidden (switchTab ''overview'' (build_project ''/site'' hall_project (Some ''hall'') sample_dom))
       = Some False
   \<and> tabList shed_project = []
   \<and> claimed_tab (map fst (tabList shed_project)) (toLowerCase (or_else (tab_param sample_env) ''''))
       = ''all''
   \<and> defaultTab (tabList shed_project) (tab_param sample_env) = ''overview''"
proof (intro conjI)
  show keys: "map fst (tabList hall_project) = [''overview'', ''all'', ''before'']" by code_simp
  show want: "toLowerCase (or_else (tab_param sample_env) '''') = ''media''" by code_simp
  show "claimed_tab (map fst (tabList hall_project))
          (toLowerCase (or_else (tab_param sample_env) '''')) = ''overview''"
    unfolding keys want by (simp add: claimed_tab_def)
  show dt: "defaultTab (tabList hall_project) (tab_param sample_env) = ''all''" by code_simp
  have m: "projectMount hall_page = Some sample_dom" by (simp add: hall_page_def)
  have f: "fetch sample_env (withBase (BASE_PATH (hostname sample_env) (pathname sample_env))
                              (gallery_url_attr hall_page)) = Response True (Some sample_manifest)"
    using sample_fetch by (simp add: hall_page_def)
  have h: "find (\<lambda>x. Some (slug x) = project_slug_attr hall_page)
             (or_empty (projects sample_manifest)) = Some hall_project"
    using sample_find_hall by (simp add: hall_page_def)
  have a: "project_slug_attr hall_page = Some ''hall''" by (simp add: hall_page_def)
  show "renderProject sample_env hall_page
       = Inr (hall_page\<lparr>projectMount :=
                Some (switchTab ''all'' (build_project ''/site'' hall_project (Some ''hall'') sample_dom))\<rparr>)"
    using renderProject_found [OF m f h] unfolding dt sample_base a .
  show "overview_hidden (switchTab ''all'' (build_project ''/site'' hall_project (Some ''hall'') sample_dom))
       = Some True"
    by (simp add: switchTab_def setActive_def showOverview_def showMediaAll_def Let_def
        build_project_def sample_dom_def)
  show "overview_hidden (switchTab ''overview'' (build_project ''/site'' hall_project (Some ''hall'') sample_dom))
       = Some False"
    by (simp add: switchTab_def setActive_def showOverview_def showMediaAll_def Let_def
        build_project_def sample_dom_def)
  show none: "tabList shed_project = []" by code_simp
  show "claimed_tab (map fst (tabList shed_project))
          (toLowerCase (or_else (tab_param sample_env) '''')) = ''all''"
    unfolding none want by (simp add: claimed_tab_def)
  show "defaultTab (tabList shed_project) (tab_param sample_env) = ''overview''"
    unfolding none by code_simp
qed

text \<open>
  Claim C4, amended. On the page of a project of the manifest, \<^verbatim>\<open>renderProject\<close> ends by
  calling \<^verbatim>\<open>switchTab\<close> on what it built, with the tab that the lowercased \<^verbatim>\<open>tab\<close>
  parameter names when the project has that tab; with the tab of all media when the parameter is
  \<^verbatim>\<open>media\<close> and the project has media; otherwise with the first tab of the project, and
  with \<^verbatim>\<open>overview\<close> when the project has no tab at all.
\<close>

theorem initial_tab_amended:
  assumes "projectMount pg = Some d"
    and "fetch e (withBase (BASE_PATH (hostname e) (pathname e)) (gallery_url_attr pg))
           = Response True (Some data)"
    and "find (\<lambda>x. Some (slug x) = project_slug_attr pg) (or_empty (projects data)) = Some p"
  shows "renderProject e pg =
           Inr (pg\<lparr>projectMount :=
                  Some (switchTab (chosen_tab (map fst (tabList p))
                                     (toLowerCase (or_else (tab_param e) '''')))
                          (build_project (BASE_PATH (hostname e) (pathname e)) p
                             (project_slug_attr pg) d))\<rparr>)"
proof -
  have "defaultTab (tabList p) (tab_param e)
          = chosen_tab (map fst (tabList p)) (toLowerCase (or_else (tab_param e) ''''))"
    using tabList_no_media_key by (rule defaultTab_chosen)
  with renderProject_found [OF assms] show ?thesis by simp
qed

theorem initial_tab_amended_witness:
  "projectMount hall_page = Some sample_dom
   \<and> find (\<lambda>x. Some (slug x) = project_slug_attr hall_page) (or_empty (projects sample_manifest))
       = Some hall_project
   \<and> tab_param sample_env = Some ''Media''
   \<and> chosen_tab (map fst (tabList hall_project)) (toLowerCase (or_else (tab_param sample_env) ''''))
       = ''all''
   \<and> renderProject sample_env hall_page
       = Inr (hall_page\<lparr>projectMount :=
                Some (switchTab ''all''
                        (build_project ''/site'' hall_project (Some ''hall'') sample_dom))\<rparr>)"
proof -
  have m: "projectMount hall_page = Some sample_dom" by (simp add: hall_page_def)
  have f: "fetch sample_env (withBase (BASE_PATH (hostname sample_env) (pathname sample_env))
                              (gallery_url_attr hall_page)) = Response True (Some sample_manifest)"
    using sample_fetch by (simp add: hall_page_def)
  have h: "find (\<lambda>x. Some (slug x) = project_slug_attr hall_page)
             (or_empty (projects sample_manifest)) = Some hall_project"
    using sample_find_hall by (simp add: hall_page_def)
  have t: "tab_param sample_env = Some ''Media''" by (simp add: sample_env_def)
  have c: "chosen_tab (map fst (tabList hall_project))
             (toLowerCase (or_else (tab_param sample_env) '''')) = ''all''"
    by code_simp
  have a: "project_slug_attr hall_page = Some ''hall''" by (simp add: hall_page_def)
  from initial_tab_amended [OF m f h]
  have "renderProject sample_env hall_page
       = Inr (hall_page\<lparr>projectMount :=
                Some (switchTab ''all''
                        (build_project ''/site'' hall_project (Some ''hall'') sample_dom))\<rparr>)"
    unfolding c sample_base a .
  with m h t c show ?thesis by simp
qed

text \<open>
  Claim C5, as the specification states it, fails when the network is down: the promise of
  \<^verbatim>\<open>fetch\<close> is rejected, the rejection leaves \<^verbatim>\<open>renderHome\<close> and \<^verbatim>\<open>renderProject\<close> as
  an exception, and no message is written.
\<close>

theorem fetch_failure_counterexample:
  "projectsGrid home_page = Some (Markup '''')
   \<and> fetch offline_env ''/site/generated/gallery.json'' = Rejected
   \<and> renderHome offline_env home_page = Inl FetchRejected
   \<and> projectMount hall_page = Some sample_dom
   \<and> renderProject offline_env hall_page = Inl FetchRejected"
  by (simp add: renderHome_def renderProject_def offline_env_def home_page_def hall_page_def
      Let_def)

text \<open>
  Claim C5, amended. When the manifest is answered with a response that is not \<^verbatim>\<open>ok\<close>,
  \<^verbatim>\<open>renderHome\<close> on a page with the grid, and \<^verbatim>\<open>renderProject\<close> on a page with the mount,
  return normally. The content of the grid, respectively of the mount, becomes the markup of
  lines 138 and 251: a card whose text is \<^verbatim>\<open>Failed to load\<close> and the URL of the manifest as
  the page gives it (on the home page the default URL when the page gives none; on a project page
  the text \<^verbatim>\<open>null\<close> when the page gives none). Nothing else of the page is changed.
\<close>

theorem failed_response_message:
  \<open>(projectsGrid pg = Some g
      \<and> fetch e (withBase (BASE_PATH (hostname e) (pathname e))
                   (Some (or_else (gallery_url_attr pg) ''generated/gallery.json'')))
          = Response False body \<longrightarrow>
    renderHome e pg =
      Inr (pg\<lparr>projectsGrid :=
             Some (Markup
               (''<div class="card" style="padding:16px;color:var(--muted)">Failed to load ''
                @ (case gallery_url_attr pg of
                     None \<Rightarrow> ''generated/gallery.json''
                   | Some u \<Rightarrow> if u = '''' then ''generated/gallery.json'' else u)
                @ ''</div>''))\<rparr>))
   \<and> (projectMount pg = Some d
      \<and> fetch e (withBase (BASE_PATH (hostname e) (pathname e)) (gallery_url_attr pg))
          = Response False body \<longrightarrow>
    renderProject e pg =
      Inr (pg\<lparr>projectMount :=
             Some (d\<lparr>mount_html :=
                      ''<div class="card" style="padding:16px;color:var(--muted)">Failed to load ''
                      @ (case gallery_url_attr pg of None \<Rightarrow> ''null'' | Some u \<Rightarrow> u)
                      @ ''</div>''\<rparr>)\<rparr>))\<close>
proof (intro conjI impI)
  assume h: "projectsGrid pg = Some g
      \<and> fetch e (withBase (BASE_PATH (hostname e) (pathname e))
                   (Some (or_else (gallery_url_attr pg) ''generated/gallery.json'')))
          = Response False body"
  then have grid: "projectsGrid pg = Some g" by (rule conjunct1)
  from h have answer: "fetch e (withBase (BASE_PATH (hostname e) (pathname e))
                   (Some (or_else (gallery_url_attr pg) ''generated/gallery.json'')))
          = Response False body" by (rule conjunct2)
  have rendered: "renderHome e pg =
      Inr (pg\<lparr>projectsGrid :=
             Some (Markup (muted_card (''Failed to load ''
                             @ or_else (gallery_url_attr pg) ''generated/gallery.json'')))\<rparr>)"
    unfolding renderHome_def Let_def grid answer by simp
  show \<open>renderHome e pg =
      Inr (pg\<lparr>projectsGrid :=
             Some (Markup
               (''<div class="card" style="padding:16px;color:var(--muted)">Failed to load ''
                @ (case gallery_url_attr pg of
                     None \<Rightarrow> ''generated/gallery.json''
                   | Some u \<Rightarrow> if u = '''' then ''generated/gallery.json'' else u)
                @ ''</div>''))\<rparr>)\<close>
    unfolding rendered by (simp add: muted_card_def or_else_def)
next
  assume h: "projectMount pg = Some d
      \<and> fetch e (withBase (BASE_PATH (hostname e) (pathname e)) (gallery_url_attr pg))
          = Response False body"
  then have mount: "projectMount pg = Some d" by (rule conjunct1)
  from h have answer: "fetch e (withBase (BASE_PATH (hostname e) (pathname e)) (gallery_url_attr pg))
          = Response False body" by (rule conjunct2)
  have rendered: "renderProject e pg =
      Inr (pg\<lparr>projectMount :=
             Some (d\<lparr>mount_html :=
                      muted_card (''Failed to load '' @ template_text (gallery_url_attr pg))\<rparr>)\<rparr>)"
    unfolding renderProject_def Let_def mount answer by simp
  show \<open>renderProject e pg =
      Inr (pg\<lparr>projectMount :=
             Some (d\<lparr>mount_html :=
                      ''<div class="card" style="padding:16px;color:var(--muted)">Failed to load ''
                      @ (case gallery_url_attr pg of None \<Rightarrow> ''null'' | Some u \<Rightarrow> u)
                      @ ''</div>''\<rparr>)\<rparr>)\<close>
    unfolding rendered by (simp add: muted_card_def template_text_def)
qed

text \<open>
  On the sample site answered with an error status: the home page gives no URL and shows the
  default one; the page of the hall shows the URL of its attribute.
\<close>

theorem failed_response_message_witness:
  \<open>projectsGrid home_page = Some (Markup '''')
   \<and> gallery_url_attr home_page = None
   \<and> fetch missing_env (withBase (BASE_PATH (hostname missing_env) (pathname missing_env))
                          (Some (or_else (gallery_url_attr home_page) ''generated/gallery.json'')))
       = Response False None
   \<and> renderHome missing_env home_page =
       Inr (home_page\<lparr>projectsGrid :=
              Some (Markup ''<div class="card" style="padding:16px;color:var(--muted)">Failed to load generated/gallery.json</div>'')\<rparr>)
   \<and> projectMount hall_page = Some sample_dom
   \<and> gallery_url_attr hall_page = Some ''/generated/gallery.json''
   \<and> fetch missing_env (withBase (BASE_PATH (hostname missing_env) (pathname missing_env))
                          (gallery_url_attr hall_page))
       = Response False None
   \<and> renderProject missing_env hall_page =
       Inr (hall_page\<lparr>projectMount :=
              Some (sample_dom\<lparr>mount_html :=
                      ''<div class="card" style="padding:16px;color:var(--muted)">Failed to load /generated/gallery.json</div>''\<rparr>)\<rparr>)\<close>
proof -
  have g: "projectsGrid home_page = Some (Markup '''')" by (simp add: home_page_def)
  have m: "projectMount hall_page = Some sample_dom" by (simp add: hall_page_def)
  have a1: "gallery_url_attr home_page = None" by (simp add: home_page_def)
  have a2: "gallery_url_attr hall_page = Some ''/generated/gallery.json''"
    by (simp add: hall_page_def)
  have f1: "fetch missing_env (withBase (BASE_PATH (hostname missing_env) (pathname missing_env))
                          (Some (or_else (gallery_url_attr home_page) ''generated/gallery.json'')))
       = Response False None"
    by (simp add: missing_env_def)
  have f2: "fetch missing_env (withBase (BASE_PATH (hostname missing_env) (pathname missing_env))
                          (gallery_url_attr hall_page))
       = Response False None"
    by (simp add: missing_env_def)
  from failed_response_message [of home_page "Markup ''''" missing_env None] g f1
  have r1: \<open>renderHome missing_env home_page =
       Inr (home_page\<lparr>projectsGrid :=
              Some (Markup ''<div class="card" style="padding:16px;color:var(--muted)">Failed to load generated/gallery.json</div>'')\<rparr>)\<close>
    unfolding a1 by simp
  from failed_response_message [of hall_page _ missing_env None sample_dom] m f2
  have r2: \<open>renderProject missing_env hall_page =
       Inr (hall_page\<lparr>projectMount :=
              Some (sample_dom\<lparr>mount_html :=
                      ''<div class="card" style="padding:16px;color:var(--muted)">Failed to load /generated/gallery.json</div>''\<rparr>)\<rparr>)\<close>
    unfolding a2 by simp
  show ?thesis by (intro conjI) (fact g a1 f1 r1 m a2 f2 r2)+
qed

lemma not_found_bytes:
  "utf8 [0xE6, 0x9C, 0xAA, 0xE6, 0x89, 0xBE, 0xE5, 0x88, 0xB0, 0xE9, 0xA1, 0xB9, 0xE7, 0x9B,
         0xAE, 0xEF, 0xBC, 0x9A]
     = [CHR 0xE6, CHR 0x9C, CHR 0xAA, CHR 0xE6, CHR 0x89, CHR 0xBE,
        CHR 0xE5, CHR 0x88, CHR 0xB0, CHR 0xE9, CHR 0xA1, CHR 0xB9,
        CHR 0xE7, CHR 0x9B, CHR 0xAE, CHR 0xEF, CHR 0xBC, CHR 0x9A]"
  by code_simp

text \<open>
  Claim C6. When the manifest is loaded and none of its projects has the slug of the page,
  \<^verbatim>\<open>renderProject\<close> returns normally. The content of the mount becomes the markup of line
  258: a card whose text is the message that the project was not found (six Chinese characters
  and a colon, given by the bytes of their UTF-8 encoding) and the slug of the page, or the text
  \<^verbatim>\<open>null\<close> when the page has no slug. Nothing else of the page is changed: not the title,
  the overview, the sections or the tabs.
\<close>

theorem missing_project_not_found:
  assumes \<open>projectMount pg = Some d\<close>
    and \<open>fetch e (withBase (BASE_PATH (hostname e) (pathname e)) (gallery_url_attr pg))
           = Response True (Some data)\<close>
    and \<open>\<forall>x \<in> set (or_empty (projects data)). Some (slug x) \<noteq> project_slug_attr pg\<close>
  shows \<open>renderProject e pg =
           Inr (pg\<lparr>projectMount :=
                  Some (d\<lparr>mount_html :=
                           ''<div class="card" style="padding:16px;color:var(--muted)">''
                           @ [CHR 0xE6, CHR 0x9C, CHR 0xAA, CHR 0xE6, CHR 0x89, CHR 0xBE,
                              CHR 0xE5, CHR 0x88, CHR 0xB0, CHR 0xE9, CHR 0xA1, CHR 0xB9,
                              CHR 0xE7, CHR 0x9B, CHR 0xAE, CHR 0xEF, CHR 0xBC, CHR 0x9A]
                           @ (case project_slug_attr pg of None \<Rightarrow> ''null'' | Some s \<Rightarrow> s)
                           @ ''</div>''\<rparr>)\<rparr>)\<close>
proof -
  from assms(3)
  have "find (\<lambda>x. Some (slug x) = project_slug_attr pg) (or_empty (projects data)) = None"
    by (simp add: find_None_iff)
  with assms(1,2) have rendered: "renderProject e pg =
           Inr (pg\<lparr>projectMount :=
                  Some (d\<lparr>mount_html := muted_card (not_found_text (project_slug_attr pg))\<rparr>)\<rparr>)"
    by (simp add: renderProject_def Let_def)
  show ?thesis
    unfolding rendered
    by (simp add: muted_card_def not_found_text_def template_text_def not_found_bytes)
qed

text \<open>On the sample site, the page of a barn that the manifest does not list.\<close>

theorem missing_project_not_found_witness:
  \<open>projectMount barn_page = Some sample_dom
   \<and> project_slug_attr barn_page = Some ''barn''
   \<and> map slug (or_empty (projects sample_manifest)) = [''hall'', ''shed'', ''pool'']
   \<and> renderProject sample_env barn_page =
       Inr (barn_page\<lparr>projectMount :=
              Some (sample_dom\<lparr>mount_html :=
                      ''<div class="card" style="padding:16px;color:var(--muted)">''
                      @ [CHR 0xE6, CHR 0x9C, CHR 0xAA, CHR 0xE6, CHR 0x89, CHR 0xBE,
                         CHR 0xE5, CHR 0x88, CHR 0xB0, CHR 0xE9, CHR 0xA1, CHR 0xB9,
                         CHR 0xE7, CHR 0x9B, CHR 0xAE, CHR 0xEF, CHR 0xBC, CHR 0x9A]
                      @ ''barn</div>''\<rparr>)\<rparr>)\<close>
proof -
  have m: "projectMount barn_page = Some sample_dom" by (simp add: barn_page_def hall_page_def)
  have a: "project_slug_attr barn_page = Some ''barn''" by (simp add: barn_page_def)
  have f: "fetch sample_env (withBase (BASE_PATH (hostname sample_env) (pathname sample_env))
                              (gallery_url_attr barn_page)) = Response True (Some sample_manifest)"
    using sample_fetch by (simp add: barn_page_def hall_page_def)
  have s: "map slug (or_empty (projects sample_manifest)) = [''hall'', ''shed'', ''pool'']"
    by (simp add: sample_manifest_def or_empty_def hall_project_def shed_project_def
        pool_project_def)
  have none: "\<forall>x \<in> set (or_empty (projects sample_manifest)). Some (slug x) \<noteq> project_slug_attr barn_page"
  proof
    fix x assume "x \<in> set (or_empty (projects sample_manifest))"
    then have "slug x \<in> set (map slug (or_empty (projects sample_manifest)))" by simp
    then have "slug x \<in> {''hall'', ''shed'', ''pool''}" unfolding s by simp
    then show "Some (slug x) \<noteq> project_slug_attr barn_page" unfolding a by auto
  qed
  from missing_project_not_found [OF m f none]
  have r: \<open>renderProject sample_env barn_page =
       Inr (barn_page\<lparr>projectMount :=
              Some (sample_dom\<lparr>mount_html :=
                      ''<div class="card" style="padding:16px;color:var(--muted)">''
                      @ [CHR 0xE6, CHR 0x9C, CHR 0xAA, CHR 0xE6, CHR 0x89, CHR 0xBE,
                         CHR 0xE5, CHR 0x88, CHR 0xB0, CHR 0xE9, CHR 0xA1, CHR 0xB9,
                         CHR 0xE7, CHR 0x9B, CHR 0xAE, CHR 0xEF, CHR 0xBC, CHR 0x9A]
                      @ ''barn</div>''\<rparr>)\<rparr>)\<close>
    unfolding a by simp
  show ?thesis by (intro conjI) (fact m a s r)+
qed

section \<open>Properties of the home page\<close>

lemma mset_insert_by: "mset (insert_by cmp x xs) = add_mset x (mset xs)"
  by (induction xs) simp_all

lemma mset_sort_by: "mset (sort_by cmp xs) = mset xs"
  by (induction xs) (simp_all add: sort_by_def mset_insert_by)

lemma set_insert_by: "set (insert_by cmp x xs) = insert x (set xs)"
  using mset_insert_by [of cmp x xs] by (metis set_mset_add_mset_insert set_mset_mset)

text \<open>
  A comparison function puts \<open>a\<close> before \<open>b\<close> when it is not positive on them. When it is
  total and transitive in this sense, inserting keeps a list in order.
\<close>

lemma sorted_insert_by:
  assumes total: "\<And>a b. cmp a b \<le> 0 \<or> cmp b a \<le> 0"
    and trans: "\<And>a b c. cmp a b \<le> 0 \<Longrightarrow> cmp b c \<le> 0 \<Longrightarrow> cmp a c \<le> 0"
    and "sorted_wrt (\<lambda>a b. cmp a b \<le> 0) xs"
  shows "sorted_wrt (\<lambda>a b. cmp a b \<le> 0) (insert_by cmp x xs)"
  using assms(3)
proof (induction xs)
  case Nil
  show ?case by simp
next
  case (Cons y ys)
  show ?case
  proof (cases "cmp x y \<le> 0")
    case True
    have "cmp x z \<le> 0" if "z \<in> set ys" for z
    proof -
      from Cons.prems that have "cmp y z \<le> 0" by simp
      with True show ?thesis by (rule trans)
    qed
    with True Cons.prems show ?thesis by simp
  next
    case False
    with total [of x y] have yx: "cmp y x \<le> 0" by simp
    from Cons.prems have "sorted_wrt (\<lambda>a b. cmp a b \<le> 0) ys" by simp
    then have "sorted_wrt (\<lambda>a b. cmp a b \<le> 0) (insert_by cmp x ys)" by (rule Cons.IH)
    moreover have "cmp y z \<le> 0" if "z \<in> set (insert_by cmp x ys)" for z
      using that yx Cons.prems by (auto simp: set_insert_by)
    ultimately show ?thesis using False by simp
  qed
qed

lemma sorted_sort_by:
  assumes total: "\<And>a b. cmp a b \<le> 0 \<or> cmp b a \<le> 0"
    and trans: "\<And>a b c. cmp a b \<le> 0 \<Longrightarrow> cmp b c \<le> 0 \<Longrightarrow> cmp a c \<le> 0"
  shows "sorted_wrt (\<lambda>a b. cmp a b \<le> 0) (sort_by cmp xs)"
proof (induction xs)
  case Nil
  show ?case by (simp add: sort_by_def)
next
  case (Cons x xs)
  have "sort_by cmp (x # xs) = insert_by cmp x (sort_by cmp xs)" by (simp add: sort_by_def)
  with sorted_insert_by [of cmp "sort_by cmp xs" x, OF total trans Cons.IH] show ?case by simp
qed

lemma consistent_flip: "consistent lc \<Longrightarrow> lc a b \<le> 0 \<Longrightarrow> 0 \<le> lc b a"
  unfolding consistent_def by (metis not_less)

lemma consistent_total: "consistent lc \<Longrightarrow> lc a b \<le> 0 \<or> lc b a \<le> 0"
  unfolding consistent_def by (metis less_le_not_le linear)

lemma consistent_trans: "consistent lc \<Longrightarrow> lc a b \<le> 0 \<Longrightarrow> lc b c \<le> 0 \<Longrightarrow> lc a c \<le> 0"
  unfolding consistent_def by blast

lemma home_projects_sorted:
  assumes "consistent (localeCompare e)"
  shows "sorted_wrt (\<lambda>a b. localeCompare e (sortKey_text b) (sortKey_text a) \<le> 0) (home_projects e data)"
  unfolding home_projects_def
proof (rule sorted_sort_by)
  fix a b :: project
  show "localeCompare e (sortKey_text b) (sortKey_text a) \<le> 0 \<or> localeCompare e (sortKey_text a) (sortKey_text b) \<le> 0"
    using assms by (rule consistent_total)
next
  fix a b c :: project
  assume "localeCompare e (sortKey_text b) (sortKey_text a) \<le> 0" "localeCompare e (sortKey_text c) (sortKey_text b) \<le> 0"
  with assms show "localeCompare e (sortKey_text c) (sortKey_text a) \<le> 0"
    by (blast intro: consistent_trans)
qed

lemma byte_order_consistent: "consistent byte_order"
  unfolding consistent_def byte_order_def by auto

lemma sample_home_projects:
  "home_projects sample_env sample_manifest = [pool_project, hall_project, shed_project]"
  by code_simp

text \<open>
  Claim C3. When the manifest is loaded and the collation of the browser is consistent,
  \<^verbatim>\<open>renderHome\<close> returns normally and the grid holds the cards of the projects of the manifest,
  each once, in an order in which the sort key of every card compares greater than or equal to
  the sort key of the card after it; the sort key of a project without one is the empty string.
  (With no project at all the grid holds the notice and no card.)
\<close>

theorem home_cards_descending:
  assumes "consistent (localeCompare e)"
    and "projectsGrid pg = Some g"
    and "fetch e (withBase (BASE_PATH (hostname e) (pathname e))
                    (Some (or_else (gallery_url_attr pg) ''generated/gallery.json'')))
           = Response True (Some data)"
  shows "renderHome e pg =
           Inr (pg\<lparr>projectsGrid :=
                  Some (Nodes (if home_projects e data = [] then [Notice no_projects_notice]
                               else map (\<lambda>p. ProjectCard
                                            (buildProjectCard (BASE_PATH (hostname e) (pathname e)) p))
                                      (home_projects e data)))\<rparr>)
         \<and> mset (home_projects e data) = mset (or_empty (projects data))
         \<and> (\<forall>i. Suc i < length (home_projects e data) \<longrightarrow>
               0 \<le> localeCompare e (sortKey_text (home_projects e data ! i))
                                    (sortKey_text (home_projects e data ! Suc i)))
         \<and> (\<forall>p. sortKey p = None \<longrightarrow> sortKey_text p = '''')"
proof -
  let ?ps = "home_projects e data"
  have r: "renderHome e pg =
             Inr (pg\<lparr>projectsGrid :=
                    Some (Nodes (if ?ps = [] then [Notice no_projects_notice]
                                 else map (\<lambda>p. ProjectCard
                                              (buildProjectCard (BASE_PATH (hostname e) (pathname e)) p))
                                        ?ps))\<rparr>)"
    using assms(2,3) by (simp add: renderHome_def Let_def)
  have m: "mset ?ps = mset (or_empty (projects data))"
    by (simp add: home_projects_def mset_sort_by)
  have s: "0 \<le> localeCompare e (sortKey_text (?ps ! i)) (sortKey_text (?ps ! Suc i))"
    if "Suc i < length ?ps" for i
  proof -
    from home_projects_sorted [OF assms(1)] that
    have "localeCompare e (sortKey_text (?ps ! Suc i)) (sortKey_text (?ps ! i)) \<le> 0"
      by (simp add: sorted_wrt_iff_nth_less)
    with assms(1) show ?thesis by (rule consistent_flip)
  qed
  have k: "sortKey_text p = ''''" if "sortKey p = None" for p
    using that by (simp add: sortKey_text_def or_else_def)
  from r m s k show ?thesis by blast
qed

text \<open>
  On the sample, the manifest lists the hall (2024-05), the shed (no key) and the pool
  (2025-01); the cards are those of the pool, the hall and the shed.
\<close>

theorem home_cards_descending_witness:
  "consistent (localeCompare sample_env)
   \<and> projectsGrid home_page = Some (Markup '''')
   \<and> or_empty (projects sample_manifest) = [hall_project, shed_project, pool_project]
   \<and> home_projects sample_env sample_manifest = [pool_project, hall_project, shed_project]
   \<and> renderHome sample_env home_page =
       Inr (home_page\<lparr>projectsGrid :=
              Some (Nodes (map (\<lambda>p. ProjectCard (buildProjectCard ''/site'' p))
                             [pool_project, hall_project, shed_project]))\<rparr>)
   \<and> sortKey_text pool_project = ''2025-01'' \<and> sortKey_text hall_project = ''2024-05''
   \<and> sortKey shed_project = None \<and> sortKey_text shed_project = ''''
   \<and> 0 \<le> localeCompare sample_env (sortKey_text pool_project) (sortKey_text hall_project)
   \<and> 0 \<le> localeCompare sample_env (sortKey_text hall_project) (sortKey_text shed_project)"
proof -
  have c: "consistent (localeCompare sample_env)"
    using byte_order_consistent by (simp add: sample_env_def)
  have g: "projectsGrid home_page = Some (Markup '''')" by (simp add: home_page_def)
  have f: "fetch sample_env (withBase (BASE_PATH (hostname sample_env) (pathname sample_env))
                    (Some (or_else (gallery_url_attr home_page) ''generated/gallery.json'')))
           = Response True (Some sample_manifest)"
    by code_simp
  have l: "or_empty (projects sample_manifest) = [hall_project, shed_project, pool_project]"
    by (simp add: sample_manifest_def or_empty_def)
  have k: "sortKey_text pool_project = ''2025-01''" "sortKey_text hall_project = ''2024-05''"
    by (simp_all add: sortKey_text_def or_else_def pool_project_def hall_project_def)
  have n: "sortKey shed_project = None" by (simp add: shed_project_def)
  note h = sample_home_projects
  note t = home_cards_descending [OF c g f, unfolded h sample_base]
  from t have r: "renderHome sample_env home_page =
       Inr (home_page\<lparr>projectsGrid :=
              Some (Nodes (map (\<lambda>p. ProjectCard (buildProjectCard ''/site'' p))
                             [pool_project, hall_project, shed_project]))\<rparr>)"
    by simp
  from t have s: "\<forall>i. Suc i < length [pool_project, hall_project, shed_project] \<longrightarrow>
               0 \<le> localeCompare sample_env (sortKey_text ([pool_project, hall_project, shed_project] ! i))
                                    (sortKey_text ([pool_project, hall_project, shed_project] ! Suc i))"
    by (elim conjE)
  from s have s0: "0 \<le> localeCompare sample_env (sortKey_text pool_project) (sortKey_text hall_project)"
    by (elim allE [of _ 0]) simp
  from s have s1: "0 \<le> localeCompare sample_env (sortKey_text hall_project) (sortKey_text shed_project)"
    by (elim allE [of _ 1]) simp
  from t n have e: "sortKey_text shed_project = ''''" by blast
  show ?thesis by (intro conjI) (fact c g l h r k n e s0 s1)+
qed

end
